theory Spec2Isabelle
  imports Main "HOL-Library.Word" "HOL-Library.Sublist" "HOL-Library.Multiset"
begin

section \<open>Errors\<close>

text \<open>
  Every path of the two source files that does not return normally is a value of this
  type. A module that cannot be opened, a symbol that cannot be resolved, a second
  registration and a lookup of an unregistered capability are fatal;
  \<open>Filesystem_error\<close> is an exception of the file-system library and
  \<open>Thrown\<close> an exception that carries a message; \<open>Process_ended\<close> is the end
  of the process by \<open>std::abort\<close> or \<open>std::exit\<close> after a message, and
  \<open>Terminate_called\<close> its end by \<open>std::terminate\<close>;
  \<open>Undefined_behaviour\<close> marks a dereference of an end iterator.
\<close>

datatype error =
    Module_not_found string
  | Symbol_not_found string string
  | Already_registered
  | Not_registered
  | Filesystem_error
  | Thrown string
  | Process_ended string
  | Terminate_called
  | Undefined_behaviour

definition bind_err :: "error + 'a \<Rightarrow> ('a \<Rightarrow> error + 'b) \<Rightarrow> error + 'b" where
  "bind_err r k = (case r of Inl e \<Rightarrow> Inl e | Inr v \<Rightarrow> k v)"

text \<open>\<open>std::transform\<close> with a callee that can fail fatally: stops at the first failure.\<close>

fun transform_err :: "('a \<Rightarrow> error + 'b) \<Rightarrow> 'a list \<Rightarrow> error + 'b list" where
  "transform_err f [] = Inr []"
| "transform_err f (x # xs) =
     bind_err (f x) (\<lambda>y. bind_err (transform_err f xs) (\<lambda>ys. Inr (y # ys)))"

section \<open>The service registry (phonebook)\<close>

text \<open>
  Modelled from the spec: \<open>phonebook\<close> (common/phonebook.hpp) is not among the
  sources. Spec 4.1: \<open>register(capability, instance)\<close> installs the implementation and
  fails fatally if the capability is already registered; \<open>lookup(capability)\<close> returns
  the shared instance and fails fatally if absent. The registry is a map from the
  capability type to the shared instance.
\<close>

type_synonym ('c, 'i) phonebook = "'c \<rightharpoonup> 'i"

definition register_impl ::
  "'c \<Rightarrow> 'i \<Rightarrow> ('c, 'i) phonebook \<Rightarrow> error + ('c, 'i) phonebook" where
  "register_impl c impl reg =
     (case reg c of Some _ \<Rightarrow> Inl Already_registered | None \<Rightarrow> Inr (reg(c \<mapsto> impl)))"

definition lookup_impl :: "'c \<Rightarrow> ('c, 'i) phonebook \<Rightarrow> error + 'i" where
  "lookup_impl c reg = (case reg c of None \<Rightarrow> Inl Not_registered | Some i \<Rightarrow> Inr i)"

text \<open>A run of registrations, in order, stopping at the first fatal one.\<close>

fun register_all ::
  "('c \<times> 'i) list \<Rightarrow> ('c, 'i) phonebook \<Rightarrow> error + ('c, 'i) phonebook" where
  "register_all [] reg = Inr reg"
| "register_all ((c, impl) # rs) reg = bind_err (register_impl c impl reg) (register_all rs)"

section \<open>Dynamic libraries\<close>

text \<open>
  Modelled from the spec: \<open>dynamic_lib\<close> (common/dynamic_lib.hpp) is not among the
  sources. Spec 4.4: given a path, the loader opens the module and resolves an exported
  symbol; failure to open the module or to resolve the symbol is fatal. The modules on
  disk are a parameter: a map from a path to the module's symbol table, whose entries are
  plugin factories \<open>'f\<close>.
\<close>

type_synonym 'f modules = "string \<rightharpoonup> (string \<rightharpoonup> 'f)"

datatype dynamic_lib = Dynamic_lib string

definition dynamic_lib_create :: "'f modules \<Rightarrow> string \<Rightarrow> error + dynamic_lib" where
  "dynamic_lib_create w so_path =
     (case w so_path of None \<Rightarrow> Inl (Module_not_found so_path)
      | Some _ \<Rightarrow> Inr (Dynamic_lib so_path))"

fun dynamic_lib_get :: "'f modules \<Rightarrow> dynamic_lib \<Rightarrow> string \<Rightarrow> error + 'f" where
  "dynamic_lib_get w (Dynamic_lib p) symbol_name =
     (case w p of None \<Rightarrow> Inl (Module_not_found p)
      | Some tab \<Rightarrow> (case tab symbol_name of None \<Rightarrow> Inl (Symbol_not_found p symbol_name) | Some f \<Rightarrow> Inr f))"

section \<open>The runtime (runtime/runtime\_impl.hpp)\<close>

text \<open>The capability types the constructor registers, and the objects it makes for them.\<close>

datatype capability =
  T_record_logger | T_gen_guid | T_switchboard | T_xlib_gl_extended_window | T_realtime_clock

datatype 'ctx service =
    New_sqlite_record_logger
  | New_gen_guid
  | New_switchboard
  | New_xlib_gl_extended_window nat nat 'ctx
  | New_realtime_clock

text \<open>
  A plugin object is opaque to the runtime: it is known by the factory that made it and by
  its identity \<open>pid\<close>, the number of plugin objects created before it (each call of a
  factory allocates a new object).
\<close>

record 'f plugin =
  pid :: nat
  made_by :: 'f

text \<open>
  The calls the runtime makes on its collaborators, in the order it makes them. A call of
  a factory carries the registry it is handed (\<open>&pb\<close>).
\<close>

datatype ('ctx, 'f) event =
    Call_factory 'f "(capability, 'ctx service) phonebook"
  | Plugin_start nat
  | Plugin_stop nat
  | Switchboard_stop "'ctx service"
  | Store_terminate bool

record ('ctx, 'f) runtime_impl =
  libs :: "dynamic_lib list"
  pb :: "(capability, 'ctx service) phonebook"
  plugins :: "'f plugin list"
  terminate :: bool

type_synonym ('ctx, 'f) outcome = "error + (('ctx, 'f) event list \<times> ('ctx, 'f) runtime_impl)"

text \<open>The constructor: members start empty, \<open>terminate {false}\<close>, then five registrations.\<close>

definition runtime_impl_init :: "'ctx \<Rightarrow> error + ('ctx, 'f) runtime_impl" where
  "runtime_impl_init appGLCtx =
     bind_err (register_impl T_record_logger New_sqlite_record_logger Map.empty) (\<lambda>pb1.
     bind_err (register_impl T_gen_guid New_gen_guid pb1) (\<lambda>pb2.
     bind_err (register_impl T_switchboard New_switchboard pb2) (\<lambda>pb3.
     bind_err (register_impl T_xlib_gl_extended_window
                 (New_xlib_gl_extended_window (448 * 2) (320 * 2) appGLCtx) pb3) (\<lambda>pb4.
     bind_err (register_impl T_realtime_clock New_realtime_clock pb4) (\<lambda>pb5.
     Inr \<lparr>libs = [], pb = pb5, plugins = [], terminate = False\<rparr>)))))"

text \<open>
  \<open>load_so(const std::vector<std::string>&)\<close>: the new libraries are appended to
  \<open>libs\<close>; a factory is resolved from every element of \<open>libs\<close>; every factory is
  called and its plugin appended to \<open>plugins\<close>; \<open>start\<close> is called on every element
  of \<open>plugins\<close>.
\<close>

definition load_so_vector ::
  "'f modules \<Rightarrow> string list \<Rightarrow> ('ctx, 'f) runtime_impl \<Rightarrow> ('ctx, 'f) outcome" where
  "load_so_vector w so_paths s =
     bind_err (transform_err (dynamic_lib_create w) so_paths) (\<lambda>new_libs.
     let libs1 = libs s @ new_libs in
     bind_err (transform_err (\<lambda>lib. dynamic_lib_get w lib ''this_plugin_factory'') libs1)
       (\<lambda>plugin_factories.
     let plugins1 = plugins s @
           map (\<lambda>(i, f). \<lparr>pid = i, made_by = f\<rparr>)
             (enumerate (length (plugins s)) plugin_factories) in
     Inr (map (\<lambda>f. Call_factory f (pb s)) plugin_factories @
          map (\<lambda>p. Plugin_start (pid p)) plugins1,
          s\<lparr>libs := libs1, plugins := plugins1\<rparr>)))"

text \<open>\<open>load_plugin_factory\<close>: one call of the factory, one \<open>start\<close> on \<open>plugins.back()\<close>.\<close>

definition load_plugin_factory ::
  "'f \<Rightarrow> ('ctx, 'f) runtime_impl \<Rightarrow> ('ctx, 'f) outcome" where
  "load_plugin_factory plugin_main s =
     (let plugins1 = plugins s @ [\<lparr>pid = length (plugins s), made_by = plugin_main\<rparr>] in
      Inr ([Call_factory plugin_main (pb s), Plugin_start (pid (last plugins1))],
           s\<lparr>plugins := plugins1\<rparr>))"

text \<open>\<open>load_so(const std::string_view)\<close>.\<close>

definition load_so ::
  "'f modules \<Rightarrow> string \<Rightarrow> ('ctx, 'f) runtime_impl \<Rightarrow> ('ctx, 'f) outcome" where
  "load_so w so s =
     bind_err (dynamic_lib_create w so) (\<lambda>lib.
     bind_err (dynamic_lib_get w lib ''this_plugin_factory'') (\<lambda>this_plugin_factory.
     bind_err (load_plugin_factory this_plugin_factory s) (\<lambda>(evs, s1).
     Inr (evs, s1\<lparr>libs := libs s1 @ [lib]\<rparr>))))"

text \<open>\<open>stop\<close>.\<close>

definition stop :: "('ctx, 'f) runtime_impl \<Rightarrow> ('ctx, 'f) outcome" where
  "stop s =
     bind_err (lookup_impl T_switchboard (pb s)) (\<lambda>sb.
     Inr (Switchboard_stop sb # map (\<lambda>p. Plugin_stop (pid p)) (plugins s) @
            [Store_terminate True],
          s\<lparr>terminate := True\<rparr>))"

text \<open>
  The destructor: either it returns, or it writes the diagnostic to \<open>std::cerr\<close> and
  calls \<open>abort()\<close>.
\<close>

datatype destruction = Destroyed | Aborted string

definition runtime_impl_destroy :: "('ctx, 'f) runtime_impl \<Rightarrow> destruction" where
  "runtime_impl_destroy s =
     (if \<not> terminate s
      then Aborted ''You didn't call stop() before destructing this plugin.''
      else Destroyed)"

text \<open>
  The control surface of the runtime, and a program as the host writes it: construct,
  then any sequence of calls. The events of the calls are concatenated; a fatal error
  ends the program.
\<close>

datatype 'f call =
    Load_so_vector "string list"
  | Load_so string
  | Load_plugin_factory 'f
  | Stop

fun exec :: "'f modules \<Rightarrow> 'f call \<Rightarrow> ('ctx, 'f) runtime_impl \<Rightarrow> ('ctx, 'f) outcome" where
  "exec w (Load_so_vector so_paths) s = load_so_vector w so_paths s"
| "exec w (Load_so so) s = load_so w so s"
| "exec w (Load_plugin_factory f) s = load_plugin_factory f s"
| "exec w Stop s = stop s"

fun run :: "'f modules \<Rightarrow> 'f call list \<Rightarrow> ('ctx, 'f) runtime_impl \<Rightarrow> ('ctx, 'f) outcome" where
  "run w [] s = Inr ([], s)"
| "run w (c # cs) s =
     bind_err (exec w c s) (\<lambda>(evs, s1).
     bind_err (run w cs s1) (\<lambda>(evs2, s2). Inr (evs @ evs2, s2)))"

definition program :: "'f modules \<Rightarrow> 'ctx \<Rightarrow> 'f call list \<Rightarrow> ('ctx, 'f) outcome" where
  "program w appGLCtx cs = bind_err (runtime_impl_init appGLCtx) (run w cs)"

section \<open>Auxiliary notions for the runtime\<close>

text \<open>The plugin objects made from a list of factories, the first with identity \<open>n\<close>.\<close>

definition new_plugins :: "nat \<Rightarrow> 'f list \<Rightarrow> 'f plugin list" where
  "new_plugins n fs = map (\<lambda>(i, f). \<lparr>pid = i, made_by = f\<rparr>) (enumerate n fs)"

text \<open>The module paths a call opens.\<close>

fun opened :: "'f call \<Rightarrow> string list" where
  "opened (Load_so_vector so_paths) = so_paths"
| "opened (Load_so so) = [so]"
| "opened (Load_plugin_factory f) = []"
| "opened Stop = []"

text \<open>The registry as the constructor leaves it.\<close>

definition builtin_services :: "'ctx \<Rightarrow> (capability, 'ctx service) phonebook" where
  "builtin_services appGLCtx =
     [T_record_logger \<mapsto> New_sqlite_record_logger,
      T_gen_guid \<mapsto> New_gen_guid,
      T_switchboard \<mapsto> New_switchboard,
      T_xlib_gl_extended_window \<mapsto> New_xlib_gl_extended_window (448 * 2) (320 * 2) appGLCtx,
      T_realtime_clock \<mapsto> New_realtime_clock]"

text \<open>Plugin objects stand in \<open>plugins\<close> in the order of their creation.\<close>

definition pids_in_order :: "('ctx, 'f) runtime_impl \<Rightarrow> bool" where
  "pids_in_order s = (map pid (plugins s) = [0..<length (plugins s)])"

section \<open>Waiting for shutdown\<close>

text \<open>
  \<open>wait\<close> polls the atomic flag and sleeps 10 ms after every poll that reads false.
  Other threads run between the polls, so what a poll reads is a parameter:
  \<open>load_terminate k\<close> is the value \<open>terminate.load()\<close> returns at poll number
  \<open>k\<close>. The loop may run forever; a result \<open>Some (k, slept)\<close> is a return at poll
  \<open>k\<close> after \<open>slept\<close> milliseconds of sleeping, and \<open>None\<close> is no return.
\<close>

partial_function (option) wait_loop ::
  "(nat \<Rightarrow> bool) \<Rightarrow> nat \<Rightarrow> nat \<Rightarrow> (nat \<times> nat) option" where
  "wait_loop load_terminate k slept =
     (if \<not> load_terminate k then wait_loop load_terminate (Suc k) (slept + 10)
      else Some (k, slept))"

definition wait :: "(nat \<Rightarrow> bool) \<Rightarrow> (nat \<times> nat) option" where
  "wait load_terminate = wait_loop load_terminate 0 0"

text \<open>
  What the polls read when the other threads' calls on the runtime are given by a
  schedule: \<open>sched k\<close> are the calls that return after poll \<open>k - 1\<close> and before poll
  \<open>k\<close>. The only store to the flag is the last step of \<open>stop\<close>. A process that a
  fatal error has ended reads nothing more.
\<close>

definition terminate_at ::
  "'f modules \<Rightarrow> 'ctx \<Rightarrow> (nat \<Rightarrow> 'f call list) \<Rightarrow> nat \<Rightarrow> bool" where
  "terminate_at w appGLCtx sched k =
     (case program w appGLCtx (concat (map sched [0..<Suc k])) of
        Inl e \<Rightarrow> False
      | Inr (evs, s) \<Rightarrow> terminate s)"

section \<open>The offload plugin (plugins/offload\_data)\<close>

subsection \<open>What the plugin is given\<close>

text \<open>
  The payload \<open>texture_pose\<close> (common/data\_format.hpp, not among the sources), with the
  members the plugin reads. Images \<open>'img\<close>, floating-point numbers \<open>'fl\<close> and
  durations \<open>'dur\<close> are opaque; \<open>pose_time\<close> is the count of its time since epoch; a
  quaternion is given as \<open>(w, x, y, z)\<close>.
\<close>

record ('img, 'fl, 'dur) texture_pose =
  offload_duration :: 'dur
  image :: 'img
  pose_time :: int
  position :: "'fl list"
  latest_quaternion :: "'fl \<times> 'fl \<times> 'fl \<times> 'fl"
  render_quaternion :: "'fl \<times> 'fl \<times> 'fl \<times> 'fl"

text \<open>
  The parts of the environment that the plugin's code reads and that are declared
  outside the sources, as parameters: the process environment behind \<open>getenv_or\<close>,
  \<open>str_to_bool\<close>, the frame-buffer constants (common/global\_module\_defs.hpp), whether
  the PNG encoder of \<open>stbi_write_png\<close> succeeds on an image, and the count of
  milliseconds of a duration (\<open>duration_cast\<close>). \<open>getenv_or\<close> is taken to
  return the value of the variable, and its second argument when the variable is not
  set.

  \<open>ILLIXR::abort\<close> (common/error\_util.hpp) is not among the sources either, and
  nothing in the sources says what a call of it does. It is a parameter too: a call
  returns to its caller, or leaves by an exception, or ends the process. A helper that
  does none of the three, such as one that never comes back, is not considered.
\<close>

datatype helper_exit = Returns | Throws | Ends_process

record ('img, 'dur) environment =
  getenv :: "string \<rightharpoonup> string"
  str_to_bool :: "string \<Rightarrow> bool"
  FB_WIDTH :: nat
  FB_HEIGHT :: nat
  png_encodes :: "'img \<Rightarrow> bool"
  count_milli :: "'dur \<Rightarrow> int"
  ILLIXR_abort_exit :: helper_exit

definition getenv_or :: "('img, 'dur) environment \<Rightarrow> string \<Rightarrow> string \<Rightarrow> string" where
  "getenv_or env var fallback = (case getenv env var of None \<Rightarrow> fallback | Some v \<Rightarrow> v)"

text \<open>
  A call of \<open>ILLIXR::abort\<close> with a message, for each way the helper may leave: the
  caller goes on after the call, or an exception with the message travels up from the
  call, or the process has ended.
\<close>

fun ILLIXR_abort :: "helper_exit \<Rightarrow> string \<Rightarrow> error + unit" where
  "ILLIXR_abort Returns msg = Inr ()"
| "ILLIXR_abort Throws msg = Inl (Thrown msg)"
| "ILLIXR_abort Ends_process msg = Inl (Process_ended msg)"

subsection \<open>Double arithmetic and output\<close>

text \<open>
  Floating-point arithmetic is not interpreted: a value of type \<open>double\<close> is the
  expression that computes it. \<open>size_t\<close> is a 64-bit word, \<open>long\<close> values are
  integers.
\<close>

datatype dexpr =
    D_zero
  | D_of_long int
  | D_of_size "64 word"
  | D_add dexpr dexpr
  | D_sub dexpr dexpr
  | D_mul dexpr dexpr
  | D_div dexpr dexpr
  | D_sqrt dexpr

text \<open>What \<open>operator<<\<close> is given, in order.\<close>

datatype 'fl token =
    Str string
  | Long int
  | Size "64 word"
  | Dbl dexpr
  | Flt 'fl
  | Endl

datatype ('img, 'fl) content =
    Png nat nat nat 'img
  | Text "'fl token list"

subsection \<open>The file system\<close>

text \<open>
  The file system is outside the repository (boost::filesystem, \<open>std::ofstream\<close>,
  \<open>fopen\<close>); it is modelled by a map from paths to nodes, without permissions and
  links. A path is the list of its components; a leading slash is the root component;
  the components \<open>.\<close> and \<open>..\<close> are names like any other.
\<close>

type_synonym path = "string list"

datatype ('img, 'fl) node = Directory | Regular "('img, 'fl) content"

type_synonym ('img, 'fl) filesystem = "path \<rightharpoonup> ('img, 'fl) node"

fun components :: "string \<Rightarrow> string \<Rightarrow> string list" where
  "components cur [] = (if cur = [] then [] else [cur])"
| "components cur (c # cs) =
     (if c = CHR ''/''
      then (if cur = [] then components [] cs else cur # components [] cs)
      else components (cur @ [c]) cs)"

definition path_of :: "string \<Rightarrow> path" where
  "path_of s = (case s of [] \<Rightarrow> [] | c # cs \<Rightarrow>
     (if c = CHR ''/'' then [''/''] else []) @ components [] s)"

text \<open>\<open>remove_all\<close>: deletes \<open>p\<close> and everything below it; the empty path names nothing.\<close>

definition remove_all :: "path \<Rightarrow> ('img, 'fl) filesystem \<Rightarrow> ('img, 'fl) filesystem" where
  "remove_all p fs = (if p = [] then fs else (\<lambda>q. if prefix p q then None else fs q))"

text \<open>
  \<open>create_directories\<close>: makes \<open>p\<close> and its missing ancestors directories; it throws
  for the empty path and when \<open>p\<close> or an ancestor is a regular file.
\<close>

definition create_directories ::
  "path \<Rightarrow> ('img, 'fl) filesystem \<Rightarrow> error + ('img, 'fl) filesystem" where
  "create_directories p fs =
     (if p = [] \<or> (\<exists>q \<in> set (prefixes p). q \<noteq> [] \<and> fs q \<noteq> None \<and> fs q \<noteq> Some Directory)
      then Inl Filesystem_error
      else Inr (\<lambda>q. if q \<noteq> [] \<and> prefix q p \<and> fs q = None then Some Directory else fs q))"

text \<open>
  Opening a file for writing succeeds when the name is not a directory and its parent
  directory exists; a name of one component is in the current directory.
\<close>

definition can_open :: "('img, 'fl) filesystem \<Rightarrow> path \<Rightarrow> bool" where
  "can_open fs q =
     (q \<noteq> [] \<and> fs q \<noteq> Some Directory \<and> (butlast q = [] \<or> fs (butlast q) = Some Directory))"

text \<open>
  \<open>stbi_write_png\<close> (stb\_image\_write.h): encodes, then writes the file; it returns 0
  when the encoder fails or the file cannot be opened. The content of the file is kept as
  the arguments of the call; the flip that \<open>stbi_flip_vertically_on_write\<close> asks for
  is not part of it.
\<close>

definition stbi_write_png ::
  "('img, 'dur) environment \<Rightarrow> ('img, 'fl) filesystem \<Rightarrow> string \<Rightarrow> nat \<Rightarrow> nat \<Rightarrow> nat \<Rightarrow> 'img
     \<Rightarrow> bool \<times> ('img, 'fl) filesystem" where
  "stbi_write_png env fs filename w h components_per_pixel pixels =
     (if png_encodes env pixels \<and> can_open fs (path_of filename)
      then (True, fs(path_of filename \<mapsto> Regular (Png w h components_per_pixel pixels)))
      else (False, fs))"

text \<open>\<open>std::to_string\<close> of a number that is not negative.\<close>

function to_string :: "nat \<Rightarrow> string" where
  "to_string n =
     (if n < 10 then [char_of (48 + n)] else to_string (n div 10) @ [char_of (48 + n mod 10)])"
  by pat_completeness auto
termination
  by (relation "measure id") auto

declare to_string.simps [simp del]

subsection \<open>The plugin\<close>

text \<open>
  The members of \<open>offload_data\<close>, in the order of their declaration, after the name
  handed to the base class; \<open>time_seq\<close> and \<open>offload_data_container\<close> are
  \<open>_time_seq\<close> and \<open>_offload_data_container\<close>. The type of \<open>sb\<close> is
  whatever the registry holds.
\<close>

record ('sb, 'img, 'fl, 'dur) offload_data =
  plugin_name :: string
  sb :: 'sb
  time_seq :: "int list"
  offload_data_container :: "('img, 'fl, 'dur) texture_pose list"
  percent :: nat
  img_idx :: nat
  enable_offload :: bool
  is_success :: bool
  obj_dir :: string

text \<open>
  The constructor. The subscription it makes on the switchboard it looked up
  (\<open>sb->schedule\<close>) changes no member and is left out.
\<close>

definition offload_data_init ::
  "('img, 'dur) environment \<Rightarrow> string \<Rightarrow> (capability, 'sb) phonebook
     \<Rightarrow> error + ('sb, 'img, 'fl, 'dur) offload_data" where
  "offload_data_init env name0 pb0 =
     bind_err (lookup_impl T_switchboard pb0) (\<lambda>switchboard.
     Inr \<lparr>plugin_name = name0,
          sb = switchboard,
          time_seq = [],
          offload_data_container = [],
          percent = 0,
          img_idx = 0,
          enable_offload = str_to_bool env (getenv_or env ''ILLIXR_OFFLOAD_ENABLE'' ''False''),
          is_success = True,
          obj_dir = getenv_or env ''ILLIXR_OFFLOAD_PATH'' ''metrics/offloaded_data/''\<rparr>)"

text \<open>
  \<open>callback\<close>: stores the payload; a debug build (\<open>NDEBUG\<close> not defined) also counts
  it in \<open>img_idx\<close>.
\<close>

definition callback ::
  "bool \<Rightarrow> ('img, 'fl, 'dur) texture_pose \<Rightarrow> ('sb, 'img, 'fl, 'dur) offload_data
     \<Rightarrow> ('sb, 'img, 'fl, 'dur) offload_data" where
  "callback ndebug datum od =
     (let od1 = (if \<not> ndebug then od\<lparr>img_idx := img_idx od + 1\<rparr> else od)
      in od1\<lparr>offload_data_container := offload_data_container od1 @ [datum]\<rparr>)"

text \<open>
  \<open>std::max_element\<close> and \<open>std::min_element\<close>: the result is an iterator, \<open>None\<close>
  is the end iterator.
\<close>

fun max_element :: "int list \<Rightarrow> int option" where
  "max_element [] = None"
| "max_element (x # xs) = Some (fold max xs x)"

fun min_element :: "int list \<Rightarrow> int option" where
  "min_element [] = None"
| "min_element (x # xs) = Some (fold min xs x)"

text \<open>The conversion of a \<open>long\<close> to the \<open>int\<close> parameter of the comparator.\<close>

definition to_int :: "int \<Rightarrow> int" where
  "to_int x = sint (word_of_int x :: 32 word)"

text \<open>
  \<open>std::sort\<close> with the comparator \<open>[](int x, int y) { return x > y; }\<close>. The order
  of elements that the comparator holds equivalent is not specified by \<open>std::sort\<close>;
  here they keep their order.
\<close>

definition sort_descending :: "int list \<Rightarrow> int list" where
  "sort_descending xs = sort_key (\<lambda>x. - to_int x) xs"

definition time_tokens :: "int list \<Rightarrow> 'fl token list" where
  "time_tokens xs = concat (map (\<lambda>it. [Long it, Str '' '']) xs)"

definition mean_of :: "int list \<Rightarrow> dexpr" where
  "mean_of xs =
     D_div (foldl (\<lambda>acc x. D_add acc (D_of_long x)) D_zero xs) (D_of_size (of_nat (length xs)))"

definition stdev_divisor :: "int list \<Rightarrow> 64 word" where
  "stdev_divisor xs = of_nat (length xs) - 1"

definition stdev_of :: "int list \<Rightarrow> dexpr" where
  "stdev_of xs =
     (let mean = mean_of xs;
          accum = foldl (\<lambda>accum d.
                    D_add accum (D_mul (D_sub (D_of_long d) mean) (D_sub (D_of_long d) mean)))
                  D_zero xs
      in D_sqrt (D_div accum (D_of_size (stdev_divisor xs))))"

text \<open>
  \<open>writeMetadata\<close>. When the file is open, \<open>*max\<close> and \<open>*min\<close> are dereferenced;
  on an end iterator that is undefined behaviour.
\<close>

definition writeMetadata ::
  "('sb, 'img, 'fl, 'dur) offload_data \<Rightarrow> ('img, 'fl) filesystem \<Rightarrow> int list
     \<Rightarrow> error + ('img, 'fl) filesystem" where
  "writeMetadata od fs ts =
     (let mean = mean_of ts;
          stdev = stdev_of ts;
          max_it = max_element ts;
          min_it = min_element ts;
          meta_file = path_of (obj_dir od @ ''metadata.out'')
      in if can_open fs meta_file
         then (case (max_it, min_it) of
                 (Some mx, Some mn) \<Rightarrow>
                   Inr (fs(meta_file \<mapsto> Regular (Text
                     ([Str ''mean: '', Dbl mean, Endl,
                       Str ''max: '', Long mx, Endl,
                       Str ''min: '', Long mn, Endl,
                       Str ''stdev: '', Dbl stdev, Endl,
                       Str ''total number: '', Size (of_nat (length ts)), Endl,
                       Str ''raw time: '', Endl] @
                      time_tokens ts @
                      [Endl, Endl, Endl,
                       Str ''ordered time: '', Endl] @
                      time_tokens (sort_descending ts)))))
               | _ \<Rightarrow> Inl Undefined_behaviour)
         else Inr fs)"

definition pose_tokens :: "('img, 'fl, 'dur) texture_pose \<Rightarrow> 'fl token list" where
  "pose_tokens c =
     (case (latest_quaternion c, render_quaternion c) of ((lw, lx, ly, lz), (rw, rx, ry, rz)) \<Rightarrow>
      [Str ''strTime: '', Long (pose_time c), Endl, Str ''pos: ''] @
      concat (map (\<lambda>v. [Flt v, Str '' '']) (position c)) @
      [Endl,
       Str ''latest_pose_orientation: '',
       Flt lw, Str '' '', Flt lx, Str '' '', Flt ly, Str '' '', Flt lz, Endl,
       Str ''render_pose_orientation: '',
       Flt rw, Str '' '', Flt rx, Str '' '', Flt ry, Str '' '', Flt rz])"

text \<open>
  One round of the loop of \<open>writeDataToDisk\<close>, over a container of \<open>n\<close> payloads.
  The progress bar on \<open>std::cout\<close> is left out. After the call of
  \<open>ILLIXR::abort\<close> the source has no \<open>return\<close>, \<open>break\<close> or \<open>continue\<close>:
  when the call returns, the round goes on with the pose file.
\<close>

definition write_frame ::
  "('img, 'dur) environment \<Rightarrow> nat \<Rightarrow> ('img, 'fl, 'dur) texture_pose
     \<Rightarrow> ('sb, 'img, 'fl, 'dur) offload_data \<times> ('img, 'fl) filesystem
     \<Rightarrow> error + (('sb, 'img, 'fl, 'dur) offload_data \<times> ('img, 'fl) filesystem)" where
  "write_frame env n container_it st =
     (case st of (od, fs) \<Rightarrow>
      let od1 = od\<lparr>time_seq := time_seq od @ [count_milli env (offload_duration container_it)]\<rparr>;
          image_name = obj_dir od1 @ to_string (img_idx od1) @ ''.png'';
          pose_name = obj_dir od1 @ to_string (img_idx od1) @ ''.txt'';
          (ok, fs1) = stbi_write_png env fs image_name (FB_WIDTH env) (FB_HEIGHT env) 3
                        (image container_it);
          od2 = od1\<lparr>is_success := ok\<rparr>
      in bind_err
           (if \<not> is_success od2
            then ILLIXR_abort (ILLIXR_abort_exit env) ''Image create failed !!! ''
            else Inr ())
           (\<lambda>_.
           let fs2 = (if can_open fs1 (path_of pose_name)
                      then fs1(path_of pose_name \<mapsto> Regular (Text (pose_tokens container_it)))
                      else fs1);
               od3 = od2\<lparr>percent := 100 * (img_idx od2 + 1) div n\<rparr>;
               od4 = od3\<lparr>img_idx := img_idx od3 + 1\<rparr>
           in Inr (od4, fs2)))"

fun write_frames ::
  "('img, 'dur) environment \<Rightarrow> nat \<Rightarrow> ('img, 'fl, 'dur) texture_pose list
     \<Rightarrow> ('sb, 'img, 'fl, 'dur) offload_data \<times> ('img, 'fl) filesystem
     \<Rightarrow> error + (('sb, 'img, 'fl, 'dur) offload_data \<times> ('img, 'fl) filesystem)" where
  "write_frames env n [] st = Inr st"
| "write_frames env n (c # cs) st = bind_err (write_frame env n c st) (write_frames env n cs)"

definition writeDataToDisk ::
  "('img, 'dur) environment \<Rightarrow> ('sb, 'img, 'fl, 'dur) offload_data \<Rightarrow> ('img, 'fl) filesystem
     \<Rightarrow> ('img, 'fl, 'dur) texture_pose list
     \<Rightarrow> error + (('sb, 'img, 'fl, 'dur) offload_data \<times> ('img, 'fl) filesystem)" where
  "writeDataToDisk env od fs container =
     bind_err (write_frames env (length container) container (od\<lparr>img_idx := 0\<rparr>, fs))
       (\<lambda>(od1, fs1).
     bind_err (writeMetadata od1 fs1 (time_seq od1)) (\<lambda>fs2. Inr (od1, fs2)))"

text \<open>The body of the destructor.\<close>

definition offload_data_destroy ::
  "('img, 'dur) environment \<Rightarrow> ('sb, 'img, 'fl, 'dur) offload_data \<Rightarrow> ('img, 'fl) filesystem
     \<Rightarrow> error + (('sb, 'img, 'fl, 'dur) offload_data \<times> ('img, 'fl) filesystem)" where
  "offload_data_destroy env od fs =
     (if enable_offload od
      then let p = path_of (obj_dir od);
               fs1 = remove_all p fs
           in bind_err (create_directories p fs1) (\<lambda>fs2.
              writeDataToDisk env od fs2 (offload_data_container od))
      else Inr (od, fs))"



text \<open>The plugin after the payloads of \<open>data\<close> were delivered to \<open>callback\<close>, in order.\<close>

definition received ::
  "bool \<Rightarrow> ('img, 'fl, 'dur) texture_pose list \<Rightarrow> ('sb, 'img, 'fl, 'dur) offload_data
     \<Rightarrow> ('sb, 'img, 'fl, 'dur) offload_data" where
  "received ndebug data od = foldl (\<lambda>od datum. callback ndebug datum od) od data"

section \<open>Properties of the runtime\<close>

lemma bind_err_Inr_iff:
  "(bind_err r k = Inr v) = (\<exists>x. r = Inr x \<and> k x = Inr v)"
  by (cases r) (simp_all add: bind_err_def)

lemma transform_create:
  "transform_err (dynamic_lib_create w) ps = Inr ls \<Longrightarrow> ls = map Dynamic_lib ps"
  by (induction ps arbitrary: ls)
     (auto simp: bind_err_Inr_iff dynamic_lib_create_def split: option.splits)

lemma load_so_vector_Inr:
  assumes "load_so_vector w so_paths s = Inr (evs, s1)"
  shows "\<exists>fs. evs = map (\<lambda>f. Call_factory f (pb s)) fs @
                  map (\<lambda>p. Plugin_start (pid p)) (plugins s @ new_plugins (length (plugins s)) fs)
              \<and> s1 = s\<lparr>libs := libs s @ map Dynamic_lib so_paths,
                       plugins := plugins s @ new_plugins (length (plugins s)) fs\<rparr>"
proof -
  from assms obtain new_libs fs where
    a: "transform_err (dynamic_lib_create w) so_paths = Inr new_libs"
    and c: "evs = map (\<lambda>f. Call_factory f (pb s)) fs @
                  map (\<lambda>p. Plugin_start (pid p)) (plugins s @ new_plugins (length (plugins s)) fs)"
    and d: "s1 = s\<lparr>libs := libs s @ new_libs,
                       plugins := plugins s @ new_plugins (length (plugins s)) fs\<rparr>"
    unfolding load_so_vector_def bind_err_Inr_iff Let_def new_plugins_def by blast
  from a have "new_libs = map Dynamic_lib so_paths" by (rule transform_create)
  with c d show ?thesis by blast
qed

lemma load_plugin_factory_eq:
  "load_plugin_factory f s =
     Inr ([Call_factory f (pb s), Plugin_start (length (plugins s))],
          s\<lparr>plugins := plugins s @ new_plugins (length (plugins s)) [f]\<rparr>)"
  by (simp add: load_plugin_factory_def Let_def new_plugins_def enumerate_simps)

lemma load_so_Inr:
  assumes "load_so w so s = Inr (evs, s1)"
  shows "\<exists>f. evs = [Call_factory f (pb s), Plugin_start (length (plugins s))]
             \<and> s1 = s\<lparr>libs := libs s @ [Dynamic_lib so],
                       plugins := plugins s @ new_plugins (length (plugins s)) [f]\<rparr>"
proof -
  from assms obtain lib f where
    a: "dynamic_lib_create w so = Inr lib"
    and c: "evs = [Call_factory f (pb s), Plugin_start (length (plugins s))]"
    and d: "s1 = s\<lparr>plugins := plugins s @ new_plugins (length (plugins s)) [f],
                     libs := libs s @ [lib]\<rparr>"
    unfolding load_so_def bind_err_Inr_iff load_plugin_factory_eq by auto
  from a have "lib = Dynamic_lib so"
    by (simp add: dynamic_lib_create_def split: option.splits)
  with c d show ?thesis by auto
qed

lemma stop_Inr:
  assumes "stop s = Inr (evs, s1)"
  shows "\<exists>sb. pb s T_switchboard = Some sb
          \<and> evs = Switchboard_stop sb # map (\<lambda>p. Plugin_stop (pid p)) (plugins s) @
                  [Store_terminate True]
          \<and> s1 = s\<lparr>terminate := True\<rparr>"
  using assms unfolding stop_def bind_err_Inr_iff lookup_impl_def
  by (auto split: option.splits)

lemma exec_Inr:
  assumes "exec w c s = Inr (evs, s1)"
  shows "\<exists>fs. s1 = s\<lparr>libs := libs s @ map Dynamic_lib (opened c),
                      plugins := plugins s @ new_plugins (length (plugins s)) fs,
                      terminate := (terminate s \<or> c = Stop)\<rparr>"
proof (cases c)
  case (Load_so_vector so_paths)
  with assms have "load_so_vector w so_paths s = Inr (evs, s1)" by simp
  from load_so_vector_Inr [OF this] obtain fs where
    "s1 = s\<lparr>libs := libs s @ map Dynamic_lib so_paths,
            plugins := plugins s @ new_plugins (length (plugins s)) fs\<rparr>" by blast
  with Load_so_vector show ?thesis by (intro exI [of _ fs]) simp
next
  case (Load_so so)
  with assms have "load_so w so s = Inr (evs, s1)" by simp
  from load_so_Inr [OF this] obtain f where
    "s1 = s\<lparr>libs := libs s @ [Dynamic_lib so],
            plugins := plugins s @ new_plugins (length (plugins s)) [f]\<rparr>" by blast
  with Load_so show ?thesis by (intro exI [of _ "[f]"]) simp
next
  case (Load_plugin_factory f)
  with assms have
    "s1 = s\<lparr>plugins := plugins s @ new_plugins (length (plugins s)) [f]\<rparr>"
    by (simp add: load_plugin_factory_eq)
  with Load_plugin_factory show ?thesis by (intro exI [of _ "[f]"]) simp
next
  case Stop
  with assms have "stop s = Inr (evs, s1)" by simp
  from stop_Inr [OF this] have "s1 = s\<lparr>terminate := True\<rparr>" by blast
  with Stop show ?thesis by (intro exI [of _ "[]"]) (simp add: new_plugins_def)
qed

lemma exec_pb: "exec w c s = Inr (evs, s1) \<Longrightarrow> pb s1 = pb s"
  by (drule exec_Inr) (erule exE, simp)

lemma exec_libs:
  "exec w c s = Inr (evs, s1) \<Longrightarrow> libs s1 = libs s @ map Dynamic_lib (opened c)"
  by (drule exec_Inr) (erule exE, simp)

lemma exec_terminate:
  "exec w c s = Inr (evs, s1) \<Longrightarrow> terminate s1 = (terminate s \<or> c = Stop)"
  by (drule exec_Inr) (erule exE, simp)

lemma exec_factory_pb:
  assumes "exec w c s = Inr (evs, s1)" and "Call_factory f reg \<in> set evs"
  shows "reg = pb s"
proof (cases c)
  case (Load_so_vector so_paths)
  with assms(1) have "load_so_vector w so_paths s = Inr (evs, s1)" by simp
  from load_so_vector_Inr [OF this] assms(2) show ?thesis by auto
next
  case (Load_so so)
  with assms(1) have "load_so w so s = Inr (evs, s1)" by simp
  from load_so_Inr [OF this] assms(2) show ?thesis by auto
next
  case (Load_plugin_factory g)
  with assms show ?thesis by (auto simp: load_plugin_factory_eq)
next
  case Stop
  with assms(1) have "stop s = Inr (evs, s1)" by simp
  from stop_Inr [OF this] assms(2) show ?thesis by auto
qed

lemma map_pid_new_plugins: "map pid (new_plugins n fs) = [n..<n + length fs]"
  unfolding new_plugins_def
  by (induction fs arbitrary: n) (simp_all add: enumerate_simps upt_rec)

lemma length_new_plugins: "length (new_plugins n fs) = length fs"
  by (simp add: new_plugins_def)

lemma exec_pids:
  assumes "exec w c s = Inr (evs, s1)" and "pids_in_order s"
  shows "pids_in_order s1"
proof -
  from exec_Inr [OF assms(1)] obtain fs where
    "plugins s1 = plugins s @ new_plugins (length (plugins s)) fs" by auto
  with assms(2) upt_add_eq_append [of 0 "length (plugins s)" "length fs"] show ?thesis
    by (simp add: pids_in_order_def map_pid_new_plugins length_new_plugins)
qed

lemma run_Cons_Inr:
  "run w (c # cs) s = Inr (evs, s2) \<Longrightarrow>
     \<exists>evs1 s1 evs2. exec w c s = Inr (evs1, s1) \<and> run w cs s1 = Inr (evs2, s2)
        \<and> evs = evs1 @ evs2"
  by (auto simp: bind_err_Inr_iff)

lemma run_pb: "run w cs s = Inr (evs, s1) \<Longrightarrow> pb s1 = pb s"
proof (induction cs arbitrary: s evs)
  case Nil
  then show ?case by simp
next
  case (Cons c cs)
  from run_Cons_Inr [OF Cons.prems] obtain evs1 s2 evs2 where
    "exec w c s = Inr (evs1, s2)" "run w cs s2 = Inr (evs2, s1)" by blast
  then show ?case using Cons.IH exec_pb by metis
qed

lemma run_libs:
  "run w cs s = Inr (evs, s1) \<Longrightarrow> libs s1 = libs s @ map Dynamic_lib (concat (map opened cs))"
proof (induction cs arbitrary: s evs)
  case Nil
  then show ?case by simp
next
  case (Cons c cs)
  from run_Cons_Inr [OF Cons.prems] obtain evs1 s2 evs2 where
    e: "exec w c s = Inr (evs1, s2)" and r: "run w cs s2 = Inr (evs2, s1)" by blast
  from Cons.IH [OF r] exec_libs [OF e] show ?case by simp
qed

lemma run_terminate:
  "run w cs s = Inr (evs, s1) \<Longrightarrow> terminate s1 = (terminate s \<or> Stop \<in> set cs)"
proof (induction cs arbitrary: s evs)
  case Nil
  then show ?case by simp
next
  case (Cons c cs)
  from run_Cons_Inr [OF Cons.prems] obtain evs1 s2 evs2 where
    e: "exec w c s = Inr (evs1, s2)" and r: "run w cs s2 = Inr (evs2, s1)" by blast
  from Cons.IH [OF r] exec_terminate [OF e] show ?case by auto
qed

lemma run_pids:
  "run w cs s = Inr (evs, s1) \<Longrightarrow> pids_in_order s \<Longrightarrow> pids_in_order s1"
proof (induction cs arbitrary: s evs)
  case Nil
  then show ?case by simp
next
  case (Cons c cs)
  from run_Cons_Inr [OF Cons.prems(1)] obtain evs1 s2 evs2 where
    e: "exec w c s = Inr (evs1, s2)" and r: "run w cs s2 = Inr (evs2, s1)" by blast
  from exec_pids [OF e Cons.prems(2)] Cons.IH [OF r] show ?case by simp
qed

lemma run_factory_pb:
  "run w cs s = Inr (evs, s1) \<Longrightarrow> Call_factory f reg \<in> set evs \<Longrightarrow> reg = pb s"
proof (induction cs arbitrary: s evs)
  case Nil
  then show ?case by simp
next
  case (Cons c cs)
  from run_Cons_Inr [OF Cons.prems(1)] obtain evs1 s2 evs2 where
    e: "exec w c s = Inr (evs1, s2)" and r: "run w cs s2 = Inr (evs2, s1)"
    and evs: "evs = evs1 @ evs2" by blast
  from Cons.prems(2) evs consider "Call_factory f reg \<in> set evs1"
    | "Call_factory f reg \<in> set evs2" by auto
  then show ?case
  proof cases
    case 1
    with e show ?thesis by (rule exec_factory_pb)
  next
    case 2
    with r have "reg = pb s2" by (rule Cons.IH)
    with e show ?thesis by (simp add: exec_pb)
  qed
qed

lemma bind_err_simps:
  "bind_err (Inr x) k = k x" "bind_err (Inl e) k = Inl e"
  by (simp_all add: bind_err_def)

lemma runtime_impl_init_eq:
  "runtime_impl_init appGLCtx =
     Inr \<lparr>libs = [], pb = builtin_services appGLCtx, plugins = [], terminate = False\<rparr>"
  by (simp add: runtime_impl_init_def register_impl_def bind_err_simps builtin_services_def)

lemma program_Inr:
  assumes "program w appGLCtx cs = Inr (evs, s)"
  shows "run w cs \<lparr>libs = [], pb = builtin_services appGLCtx, plugins = [],
           terminate = False\<rparr> = Inr (evs, s)"
  using assms by (simp add: program_def runtime_impl_init_eq bind_err_simps)

lemma program_pb:
  assumes "program w appGLCtx cs = Inr (evs, s)"
  shows "pb s = builtin_services appGLCtx"
  using run_pb [OF program_Inr [OF assms]] by simp

lemma program_pids:
  assumes "program w appGLCtx cs = Inr (evs, s)"
  shows "map pid (plugins s) = [0..<length (plugins s)]"
  using run_pids [OF program_Inr [OF assms]] by (simp add: pids_in_order_def)

text \<open>
  Claim C1. In every state the runtime reaches, after any sequence of loads and stops,
  \<open>stop\<close> returns normally and makes exactly these calls, in this order: \<open>stop\<close> on
  the switchboard the constructor registered, \<open>stop\<close> on every plugin in the order of
  \<open>plugins\<close>, which is the order of their creation, and last the store of
  \<open>true\<close> into \<open>terminate\<close>. So no plugin is stopped before the switchboard.
\<close>

theorem stop_order:
  assumes "program w appGLCtx cs = Inr (evs, s)"
  shows "stop s =
           Inr (Switchboard_stop New_switchboard #
                map (\<lambda>p. Plugin_stop (pid p)) (plugins s) @ [Store_terminate True],
                s\<lparr>terminate := True\<rparr>)
         \<and> map pid (plugins s) = [0..<length (plugins s)]"
  using program_pb [OF assms] program_pids [OF assms]
  by (simp add: stop_def lookup_impl_def bind_err_simps builtin_services_def)

theorem stop_order_witness:
  "program [''a.so'' \<mapsto> [''this_plugin_factory'' \<mapsto> (7::nat)]] ()
      [Load_so ''a.so'', Load_plugin_factory 9]
    = Inr ([Call_factory 7 (builtin_services ()), Plugin_start 0,
            Call_factory 9 (builtin_services ()), Plugin_start 1],
           \<lparr>libs = [Dynamic_lib ''a.so''], pb = builtin_services (),
            plugins = [\<lparr>pid = 0, made_by = 7\<rparr>, \<lparr>pid = 1, made_by = 9\<rparr>],
            terminate = False\<rparr>)
   \<and> stop \<lparr>libs = [Dynamic_lib ''a.so''], pb = builtin_services (),
            plugins = [\<lparr>pid = 0, made_by = 7::nat\<rparr>, \<lparr>pid = 1, made_by = 9\<rparr>],
            terminate = False\<rparr>
    = Inr ([Switchboard_stop New_switchboard, Plugin_stop 0, Plugin_stop 1,
            Store_terminate True],
           \<lparr>libs = [Dynamic_lib ''a.so''], pb = builtin_services (),
            plugins = [\<lparr>pid = 0, made_by = 7\<rparr>, \<lparr>pid = 1, made_by = 9\<rparr>],
            terminate = True\<rparr>)"
proof -
  have p: "program [''a.so'' \<mapsto> [''this_plugin_factory'' \<mapsto> (7::nat)]] ()
      [Load_so ''a.so'', Load_plugin_factory 9]
    = Inr ([Call_factory 7 (builtin_services ()), Plugin_start 0,
            Call_factory 9 (builtin_services ()), Plugin_start 1],
           \<lparr>libs = [Dynamic_lib ''a.so''], pb = builtin_services (),
            plugins = [\<lparr>pid = 0, made_by = 7\<rparr>, \<lparr>pid = 1, made_by = 9\<rparr>],
            terminate = False\<rparr>)"
    by (simp add: program_def runtime_impl_init_eq bind_err_simps load_so_def
          load_plugin_factory_def dynamic_lib_create_def Let_def)
  from stop_order [OF p] p show ?thesis by simp
qed

text \<open>
  Claim C2. The claim is that \<open>start\<close> is called exactly once on every plugin object,
  whatever the combination of load calls. The code at a concrete program: \<open>load_so\<close>
  of one path, then \<open>load_so\<close> of a vector with another path. The second call walks
  all of \<open>libs\<close> and all of \<open>plugins\<close>: it calls the first module's factory
  again, and it calls \<open>start\<close> a second time on the plugin object of the first call.
\<close>

theorem load_so_vector_restarts_plugins:
  "\<exists>evs s.
     program [''a.so'' \<mapsto> [''this_plugin_factory'' \<mapsto> (7::nat)],
              ''b.so'' \<mapsto> [''this_plugin_factory'' \<mapsto> 9]] ()
       [Load_so ''a.so'', Load_so_vector [''b.so'']] = Inr (evs, s)
     \<and> map pid (plugins s) = [0, 1, 2]
     \<and> map made_by (plugins s) = [7, 7, 9]
     \<and> filter (\<lambda>e. case e of Plugin_start i \<Rightarrow> True | _ \<Rightarrow> False) evs =
           [Plugin_start 0, Plugin_start 0, Plugin_start 1, Plugin_start 2]
     \<and> count_list evs (Plugin_start 0) = 2"
  by (simp add: program_def runtime_impl_init_eq bind_err_simps load_so_def
        load_so_vector_def load_plugin_factory_def dynamic_lib_create_def Let_def
        enumerate_simps)

text \<open>
  Claim C3. After construction and any sequence of calls that returned, the
  \<open>terminate\<close> flag is true exactly when \<open>stop\<close> was among the calls. The
  destructor then returns if \<open>stop\<close> was called, and otherwise writes its diagnostic and
  aborts the process.
\<close>

theorem destroy_after_stop:
  assumes "program w appGLCtx cs = Inr (evs, s)"
  shows "terminate s = (Stop \<in> set cs)
       \<and> runtime_impl_destroy s =
           (if Stop \<in> set cs then Destroyed
            else Aborted ''You didn't call stop() before destructing this plugin.'')"
  using run_terminate [OF program_Inr [OF assms]]
  by (simp add: runtime_impl_destroy_def)

theorem destroy_after_stop_witness:
  "program [''a.so'' \<mapsto> [''this_plugin_factory'' \<mapsto> (7::nat)]] () [Load_so ''a.so'']
     = Inr ([Call_factory 7 (builtin_services ()), Plugin_start 0],
            \<lparr>libs = [Dynamic_lib ''a.so''], pb = builtin_services (),
             plugins = [\<lparr>pid = 0, made_by = 7\<rparr>], terminate = False\<rparr>)
   \<and> runtime_impl_destroy
        \<lparr>libs = [Dynamic_lib ''a.so''], pb = builtin_services (),
         plugins = [\<lparr>pid = 0, made_by = 7::nat\<rparr>], terminate = False\<rparr>
     = Aborted ''You didn't call stop() before destructing this plugin.''
   \<and> program [''a.so'' \<mapsto> [''this_plugin_factory'' \<mapsto> (7::nat)]] ()
        [Load_so ''a.so'', Stop]
     = Inr ([Call_factory 7 (builtin_services ()), Plugin_start 0,
             Switchboard_stop New_switchboard, Plugin_stop 0, Store_terminate True],
            \<lparr>libs = [Dynamic_lib ''a.so''], pb = builtin_services (),
             plugins = [\<lparr>pid = 0, made_by = 7\<rparr>], terminate = True\<rparr>)
   \<and> runtime_impl_destroy
        \<lparr>libs = [Dynamic_lib ''a.so''], pb = builtin_services (),
         plugins = [\<lparr>pid = 0, made_by = 7::nat\<rparr>], terminate = True\<rparr>
     = Destroyed"
proof -
  let ?w = "[''a.so'' \<mapsto> [''this_plugin_factory'' \<mapsto> (7::nat)]]"
  have p1: "program ?w () [Load_so ''a.so'']
     = Inr ([Call_factory 7 (builtin_services ()), Plugin_start 0],
            \<lparr>libs = [Dynamic_lib ''a.so''], pb = builtin_services (),
             plugins = [\<lparr>pid = 0, made_by = 7\<rparr>], terminate = False\<rparr>)"
    by (simp add: program_def runtime_impl_init_eq bind_err_simps load_so_def
          load_plugin_factory_def dynamic_lib_create_def Let_def)
  have p2: "program ?w () [Load_so ''a.so'', Stop]
     = Inr ([Call_factory 7 (builtin_services ()), Plugin_start 0,
             Switchboard_stop New_switchboard, Plugin_stop 0, Store_terminate True],
            \<lparr>libs = [Dynamic_lib ''a.so''], pb = builtin_services (),
             plugins = [\<lparr>pid = 0, made_by = 7\<rparr>], terminate = True\<rparr>)"
    by (simp add: program_def runtime_impl_init_eq bind_err_simps load_so_def
          load_plugin_factory_def dynamic_lib_create_def Let_def stop_def lookup_impl_def
          builtin_services_def)
  from destroy_after_stop [OF p1] destroy_after_stop [OF p2] p1 p2 show ?thesis by simp
qed

text \<open>
  Claim C5. Whenever a plugin factory is called, by whichever load operation and after
  whatever calls, the registry it is handed is the registry the constructor built: the
  constructor returns with that registry and with no library and no plugin loaded, and
  a lookup of each of the five built-in capabilities in it succeeds.
\<close>

theorem builtins_before_factories:
  assumes "program w appGLCtx cs = Inr (evs, s)"
    and "Call_factory f reg \<in> set evs"
  shows "runtime_impl_init appGLCtx =
           Inr \<lparr>libs = [], pb = reg, plugins = [], terminate = False\<rparr>
       \<and> lookup_impl T_switchboard reg = Inr New_switchboard
       \<and> lookup_impl T_record_logger reg = Inr New_sqlite_record_logger
       \<and> lookup_impl T_gen_guid reg = Inr New_gen_guid
       \<and> lookup_impl T_realtime_clock reg = Inr New_realtime_clock
       \<and> lookup_impl T_xlib_gl_extended_window reg =
           Inr (New_xlib_gl_extended_window 896 640 appGLCtx)"
proof -
  from run_factory_pb [OF program_Inr [OF assms(1)] assms(2)]
  have "reg = builtin_services appGLCtx" by simp
  then show ?thesis
    by (simp add: runtime_impl_init_eq lookup_impl_def builtin_services_def)
qed

theorem builtins_before_factories_witness:
  "program [''a.so'' \<mapsto> [''this_plugin_factory'' \<mapsto> (7::nat)]] () [Load_so ''a.so'']
     = Inr ([Call_factory 7 (builtin_services ()), Plugin_start 0],
            \<lparr>libs = [Dynamic_lib ''a.so''], pb = builtin_services (),
             plugins = [\<lparr>pid = 0, made_by = 7\<rparr>], terminate = False\<rparr>)
   \<and> lookup_impl T_switchboard (builtin_services ()) = Inr New_switchboard
   \<and> lookup_impl T_record_logger (builtin_services ()) = Inr New_sqlite_record_logger
   \<and> lookup_impl T_gen_guid (builtin_services ()) = Inr New_gen_guid
   \<and> lookup_impl T_realtime_clock (builtin_services ()) = Inr New_realtime_clock
   \<and> lookup_impl T_xlib_gl_extended_window (builtin_services ()) =
           Inr (New_xlib_gl_extended_window 896 640 ())"
proof -
  let ?w = "[''a.so'' \<mapsto> [''this_plugin_factory'' \<mapsto> (7::nat)]]"
  have p1: "program ?w () [Load_so ''a.so'']
     = Inr ([Call_factory 7 (builtin_services ()), Plugin_start 0],
            \<lparr>libs = [Dynamic_lib ''a.so''], pb = builtin_services (),
             plugins = [\<lparr>pid = 0, made_by = 7\<rparr>], terminate = False\<rparr>)"
    by (simp add: program_def runtime_impl_init_eq bind_err_simps load_so_def
          load_plugin_factory_def dynamic_lib_create_def Let_def)
  have m: "Call_factory (7::nat) (builtin_services ())
             \<in> set [Call_factory 7 (builtin_services ()), Plugin_start 0]" by simp
  from builtins_before_factories [OF p1 m] p1 show ?thesis by blast
qed

text \<open>
  Claim C8. After construction and any sequence of calls, \<open>libs\<close> holds one handle for
  every module path opened, in the order of opening; any further sequence of calls only
  appends to it, so every handle once in \<open>libs\<close> stays there at its place. No
  operation of the runtime removes or closes a handle.
\<close>

theorem libs_retained:
  assumes "program w appGLCtx cs = Inr (evs, s)"
    and "run w cs' s = Inr (evs', s')"
  shows "libs s = map Dynamic_lib (concat (map opened cs))
       \<and> libs s' = libs s @ map Dynamic_lib (concat (map opened cs'))
       \<and> prefix (libs s) (libs s')"
  using run_libs [OF program_Inr [OF assms(1)]] run_libs [OF assms(2)] by simp

theorem libs_retained_witness:
  "program [''a.so'' \<mapsto> [''this_plugin_factory'' \<mapsto> (7::nat)],
            ''b.so'' \<mapsto> [''this_plugin_factory'' \<mapsto> 9]] () [Load_so ''a.so'']
     = Inr ([Call_factory 7 (builtin_services ()), Plugin_start 0],
            \<lparr>libs = [Dynamic_lib ''a.so''], pb = builtin_services (),
             plugins = [\<lparr>pid = 0, made_by = 7\<rparr>], terminate = False\<rparr>)
   \<and> (\<exists>evs' s'. run [''a.so'' \<mapsto> [''this_plugin_factory'' \<mapsto> (7::nat)],
            ''b.so'' \<mapsto> [''this_plugin_factory'' \<mapsto> 9]] [Load_so_vector [''b.so''], Stop]
          \<lparr>libs = [Dynamic_lib ''a.so''], pb = builtin_services (),
             plugins = [\<lparr>pid = 0, made_by = 7\<rparr>], terminate = False\<rparr> = Inr (evs', s')
        \<and> libs s' = [Dynamic_lib ''a.so'', Dynamic_lib ''b.so''])"
proof -
  let ?w = "[''a.so'' \<mapsto> [''this_plugin_factory'' \<mapsto> (7::nat)],
            ''b.so'' \<mapsto> [''this_plugin_factory'' \<mapsto> 9]]"
  let ?s = "\<lparr>libs = [Dynamic_lib ''a.so''], pb = builtin_services (),
             plugins = [\<lparr>pid = 0, made_by = 7::nat\<rparr>], terminate = False\<rparr>"
  have p1: "program ?w () [Load_so ''a.so'']
     = Inr ([Call_factory 7 (builtin_services ()), Plugin_start 0], ?s)"
    by (simp add: program_def runtime_impl_init_eq bind_err_simps load_so_def
          load_plugin_factory_def dynamic_lib_create_def Let_def)
  obtain evs' s' where p2: "run ?w [Load_so_vector [''b.so''], Stop] ?s = Inr (evs', s')"
    by (simp add: bind_err_simps load_so_vector_def dynamic_lib_create_def Let_def
          stop_def lookup_impl_def builtin_services_def enumerate_simps)
  from libs_retained [OF p1 p2] p1 p2 show ?thesis by simp
qed

section \<open>Properties of waiting\<close>

lemma wait_loop_reaches:
  "load_terminate (k + d) \<Longrightarrow> (\<forall>j<d. \<not> load_terminate (k + j)) \<Longrightarrow>
     wait_loop load_terminate k slept = Some (k + d, slept + 10 * d)"
proof (induction d arbitrary: k slept)
  case 0
  then show ?case by (subst wait_loop.simps) simp
next
  case (Suc d)
  from Suc.prems(2) have nk: "\<not> load_terminate k" by (metis add_0_right zero_less_Suc)
  have "load_terminate (Suc k + d)" using Suc.prems(1) by simp
  moreover have "\<forall>j<d. \<not> load_terminate (Suc k + j)"
  proof (intro allI impI)
    fix j assume "j < d"
    then have "Suc j < Suc d" by simp
    with Suc.prems(2) have "\<not> load_terminate (k + Suc j)" by blast
    then show "\<not> load_terminate (Suc k + j)" by simp
  qed
  ultimately have "wait_loop load_terminate (Suc k) (slept + 10) =
      Some (Suc k + d, slept + 10 + 10 * d)" by (rule Suc.IH)
  with nk show ?case by (subst wait_loop.simps) simp
qed

lemma wait_loop_Some:
  "wait_loop load_terminate k slept = Some r \<Longrightarrow>
     \<exists>d. r = (k + d, slept + 10 * d) \<and> load_terminate (k + d)
        \<and> (\<forall>j<d. \<not> load_terminate (k + j))"
proof (induction rule: wait_loop.raw_induct [rotated, consumes 1])
  case (1 wait_loop' load_terminate k slept r)
  note IH = 1(1) and body = 1(2)
  show ?case
  proof (cases "load_terminate k")
    case True
    with body have "r = (k, slept)" by simp
    with True show ?thesis by (intro exI [of _ 0]) simp
  next
    case False
    with body have "wait_loop' load_terminate (Suc k) (slept + 10) = Some r" by simp
    from IH [OF this] obtain d where
      d: "r = (Suc k + d, slept + 10 + 10 * d)" "load_terminate (Suc k + d)"
         "\<forall>j<d. \<not> load_terminate (Suc k + j)" by blast
    have "\<forall>j<Suc d. \<not> load_terminate (k + j)"
    proof (intro allI impI)
      fix j assume j: "j < Suc d"
      show "\<not> load_terminate (k + j)"
      proof (cases j)
        case 0
        with False show ?thesis by simp
      next
        case (Suc i)
        with j d(3) show ?thesis by simp
      qed
    qed
    with d(1,2) show ?thesis by (intro exI [of _ "Suc d"]) simp
  qed
qed

lemma wait_Some_iff:
  "(wait load_terminate = Some (n, ms)) =
     (load_terminate n \<and> (\<forall>k<n. \<not> load_terminate k) \<and> ms = 10 * n)"
proof
  assume "wait load_terminate = Some (n, ms)"
  then show "load_terminate n \<and> (\<forall>k<n. \<not> load_terminate k) \<and> ms = 10 * n"
    unfolding wait_def by (auto dest!: wait_loop_Some)
next
  assume "load_terminate n \<and> (\<forall>k<n. \<not> load_terminate k) \<and> ms = 10 * n"
  then show "wait load_terminate = Some (n, ms)"
    unfolding wait_def using wait_loop_reaches [of load_terminate 0 n 0] by simp
qed

lemma wait_None_iff:
  "(wait load_terminate = None) = (\<forall>k. \<not> load_terminate k)"
proof
  assume none: "wait load_terminate = None"
  show "\<forall>k. \<not> load_terminate k"
  proof (rule ccontr)
    assume "\<not> (\<forall>k. \<not> load_terminate k)"
    then obtain k where k: "load_terminate k" by blast
    define n where "n = (LEAST k. load_terminate k)"
    have "load_terminate n" unfolding n_def using k by (rule LeastI)
    moreover have "\<forall>j<n. \<not> load_terminate j"
      unfolding n_def using not_less_Least by blast
    ultimately have "wait load_terminate = Some (n, 10 * n)"
      by (simp add: wait_Some_iff)
    with none show False by simp
  qed
next
  assume all: "\<forall>k. \<not> load_terminate k"
  show "wait load_terminate = None"
  proof (cases "wait load_terminate")
    case None
    then show ?thesis .
  next
    case (Some r)
    obtain n ms where "r = (n, ms)" by (cases r)
    with Some have "load_terminate n" by (simp add: wait_Some_iff)
    with all show ?thesis by blast
  qed
qed

text \<open>
  Claim C6. \<open>wait\<close> returns at poll \<open>n\<close> exactly when poll \<open>n\<close> is the first to
  read the flag true, after sleeping 10 ms for each of the \<open>n\<close> polls before it; it
  never returns exactly when no poll reads the flag true. When the flag is read from a
  runtime that other threads call, a return at poll \<open>n\<close> means that \<open>stop\<close> was among
  the calls that returned before that poll.
\<close>

theorem wait_returns_after_stop:
  "((wait load_terminate = Some (n, ms)) =
      (load_terminate n \<and> (\<forall>k<n. \<not> load_terminate k) \<and> ms = 10 * n))
   \<and> ((wait load_terminate = None) = (\<forall>k. \<not> load_terminate k))
   \<and> (wait (terminate_at w appGLCtx sched) = Some (n, ms) \<longrightarrow>
        Stop \<in> set (concat (map sched [0..<Suc n])))"
proof (intro conjI impI)
  assume "wait (terminate_at w appGLCtx sched) = Some (n, ms)"
  then have t: "terminate_at w appGLCtx sched n" by (simp add: wait_Some_iff)
  then obtain evs s where
    p: "program w appGLCtx (concat (map sched [0..<Suc n])) = Inr (evs, s)"
    and "terminate s"
    unfolding terminate_at_def by (auto split: sum.splits)
  with run_terminate [OF program_Inr [OF p]]
  show "Stop \<in> set (concat (map sched [0..<Suc n]))" by simp
qed (rule wait_Some_iff, rule wait_None_iff)

theorem wait_returns_after_stop_witness:
  "wait (\<lambda>k. 2 \<le> k) = Some (2, 20)
   \<and> wait (\<lambda>k. False) = None
   \<and> wait (terminate_at (Map.empty :: nat modules) () (\<lambda>k. if k = 1 then [Stop] else []))
       = Some (1, 10)
   \<and> Stop \<in> set (concat (map (\<lambda>k. if k = 1 then [Stop :: nat call] else []) [0..<Suc 1]))"
proof -
  let ?sched = "\<lambda>k::nat. if k = 1 then [Stop :: nat call] else []"
  let ?flag = "terminate_at (Map.empty :: nat modules) () ?sched"
  have f0: "\<not> ?flag 0"
    by (simp add: terminate_at_def program_def runtime_impl_init_eq bind_err_simps)
  have f1: "?flag 1"
    by (simp add: terminate_at_def program_def runtime_impl_init_eq bind_err_simps
          stop_def lookup_impl_def builtin_services_def)
  have a: "wait (\<lambda>k::nat. 2 \<le> k) = Some (2, 20)"
    using wait_returns_after_stop [of "\<lambda>k. 2 \<le> k" 2 20 "Map.empty :: nat modules" "()" ?sched]
    by simp
  have b: "wait (\<lambda>k. False) = None"
    using wait_returns_after_stop [of "\<lambda>k. False" 0 0 "Map.empty :: nat modules" "()" ?sched]
    by simp
  have c: "wait ?flag = Some (1, 10)"
    using wait_returns_after_stop [of ?flag 1 10 "Map.empty :: nat modules" "()" ?sched] f0 f1
    by simp
  from wait_returns_after_stop [of ?flag 1 10 "Map.empty :: nat modules" "()" ?sched] c
  have d: "Stop \<in> set (concat (map ?sched [0..<Suc 1]))" by blast
  from a b c d show ?thesis by blast
qed

section \<open>Properties of the registry and the plugin's constructor\<close>

lemma register_all_keeps:
  "register_all regs reg0 = Inr reg \<Longrightarrow> reg0 c = Some i \<Longrightarrow> reg c = Some i"
proof (induction regs arbitrary: reg0)
  case Nil
  then show ?case by simp
next
  case (Cons r regs)
  obtain c' i' where r: "r = (c', i')" by (cases r)
  with Cons.prems(1) obtain reg1 where
    a: "register_impl c' i' reg0 = Inr reg1" and b: "register_all regs reg1 = Inr reg"
    by (auto simp: bind_err_Inr_iff)
  from a Cons.prems(2) have "reg1 c = Some i"
    by (auto simp: register_impl_def split: option.splits)
  with b show ?case by (rule Cons.IH)
qed

lemma register_all_lookup:
  "register_all regs reg0 = Inr reg \<Longrightarrow> (c, i) \<in> set regs \<Longrightarrow> reg c = Some i"
proof (induction regs arbitrary: reg0)
  case Nil
  then show ?case by simp
next
  case (Cons r regs)
  obtain c' i' where r: "r = (c', i')" by (cases r)
  with Cons.prems(1) obtain reg1 where
    a: "register_impl c' i' reg0 = Inr reg1" and b: "register_all regs reg1 = Inr reg"
    by (auto simp: bind_err_Inr_iff)
  show ?case
  proof (cases "(c, i) = r")
    case True
    with r a have "reg1 c = Some i"
      by (auto simp: register_impl_def split: option.splits)
    with b show ?thesis by (rule register_all_keeps)
  next
    case False
    with Cons.prems(2) have "(c, i) \<in> set regs" by simp
    with b show ?thesis by (rule Cons.IH)
  qed
qed

text \<open>
  Claim C7. In a registry built by a run of registrations that all succeeded, a lookup
  of a registered capability returns the instance registered for it, and a second
  registration of the capability fails, so the instance cannot be replaced. In
  particular, whenever the runtime calls a factory, the constructor of the offload plugin
  run on the registry handed over succeeds and holds as \<open>sb\<close> the switchboard the
  runtime's constructor registered.
\<close>

theorem lookup_returns_registered:
  "(register_all regs Map.empty = Inr reg \<longrightarrow> (c, i) \<in> set regs \<longrightarrow>
      lookup_impl c reg = Inr i \<and> register_impl c j reg = Inl Already_registered)
   \<and> (program w appGLCtx cs = Inr (evs, s) \<longrightarrow> Call_factory f pb0 \<in> set evs \<longrightarrow>
      (\<exists>s0 od. runtime_impl_init appGLCtx = Inr s0
         \<and> offload_data_init env name0 pb0 = Inr od
         \<and> lookup_impl T_switchboard (pb (s0 :: ('ctx, 'f) runtime_impl)) = Inr (sb od)
         \<and> sb (od :: ('ctx service, 'img, 'fl, 'dur) offload_data) = New_switchboard))"
proof (intro conjI impI)
  assume a: "register_all regs Map.empty = Inr reg" and b: "(c, i) \<in> set regs"
  from register_all_lookup [OF a b]
  show "lookup_impl c reg = Inr i" by (simp add: lookup_impl_def)
  from register_all_lookup [OF a b]
  show "register_impl c j reg = Inl Already_registered" by (simp add: register_impl_def)
next
  assume p: "program w appGLCtx cs = Inr (evs, s)" and m: "Call_factory f pb0 \<in> set evs"
  from run_factory_pb [OF program_Inr [OF p] m]
  have "pb0 = builtin_services appGLCtx" by simp
  then show "\<exists>s0 od. runtime_impl_init appGLCtx = Inr s0
         \<and> offload_data_init env name0 pb0 = Inr od
         \<and> lookup_impl T_switchboard (pb (s0 :: ('ctx, 'f) runtime_impl)) = Inr (sb od)
         \<and> sb (od :: ('ctx service, 'img, 'fl, 'dur) offload_data) = New_switchboard"
    by (simp add: runtime_impl_init_eq offload_data_init_def lookup_impl_def
          builtin_services_def bind_err_simps)
qed

theorem lookup_returns_registered_witness:
  "register_all [(1::nat, ''a''), (2, ''b'')] Map.empty = Inr [1 \<mapsto> ''a'', 2 \<mapsto> ''b'']
   \<and> lookup_impl (2::nat) [1 \<mapsto> ''a'', 2 \<mapsto> ''b''] = Inr ''b''
   \<and> register_impl (2::nat) ''c'' [1 \<mapsto> ''a'', 2 \<mapsto> ''b''] = Inl Already_registered
   \<and> program [''a.so'' \<mapsto> [''this_plugin_factory'' \<mapsto> (7::nat)]] () [Load_so ''a.so'']
     = Inr ([Call_factory 7 (builtin_services ()), Plugin_start 0],
            \<lparr>libs = [Dynamic_lib ''a.so''], pb = builtin_services (),
             plugins = [\<lparr>pid = 0, made_by = 7\<rparr>], terminate = False\<rparr>)
   \<and> (\<exists>s0 od. runtime_impl_init () = Inr (s0 :: (unit, nat) runtime_impl)
         \<and> offload_data_init
              \<lparr>getenv = Map.empty, str_to_bool = (\<lambda>s. s = ''True''), FB_WIDTH = 2,
               FB_HEIGHT = 2, png_encodes = (\<lambda>i::nat. True), count_milli = (\<lambda>d::int. d),
      ILLIXR_abort_exit = Ends_process\<rparr>
              ''offload_data'' (builtin_services ())
            = Inr (od :: (unit service, nat, nat, int) offload_data)
         \<and> lookup_impl T_switchboard (pb s0) = Inr (sb od)
         \<and> sb od = New_switchboard)"
proof -
  let ?w = "[''a.so'' \<mapsto> [''this_plugin_factory'' \<mapsto> (7::nat)]]"
  let ?env = "\<lparr>getenv = Map.empty, str_to_bool = (\<lambda>s. s = ''True''), FB_WIDTH = 2,
               FB_HEIGHT = 2, png_encodes = (\<lambda>i::nat. True), count_milli = (\<lambda>d::int. d),
      ILLIXR_abort_exit = Ends_process\<rparr>"
  have r: "register_all [(1::nat, ''a''), (2, ''b'')] Map.empty
             = Inr [1 \<mapsto> ''a'', 2 \<mapsto> ''b'']"
    by (simp add: register_impl_def bind_err_simps)
  have p1: "program ?w () [Load_so ''a.so'']
     = Inr ([Call_factory 7 (builtin_services ()), Plugin_start 0],
            \<lparr>libs = [Dynamic_lib ''a.so''], pb = builtin_services (),
             plugins = [\<lparr>pid = 0, made_by = 7\<rparr>], terminate = False\<rparr>)"
    by (simp add: program_def runtime_impl_init_eq bind_err_simps load_so_def
          load_plugin_factory_def dynamic_lib_create_def Let_def)
  have m: "Call_factory (7::nat) (builtin_services ())
             \<in> set [Call_factory 7 (builtin_services ()), Plugin_start 0]" by simp
  have s: "((2::nat), ''b'') \<in> set [(1::nat, ''a''), (2, ''b'')]" by simp
  note th = lookup_returns_registered
    [where regs = "[(1::nat, ''a''), (2, ''b'')]" and reg = "[1 \<mapsto> ''a'', 2 \<mapsto> ''b'']"
       and c = 2 and i = "''b''" and j = "''c''" and w = ?w and appGLCtx = "()"
       and cs = "[Load_so ''a.so'']"
       and evs = "[Call_factory 7 (builtin_services ()), Plugin_start 0]"
       and s = "\<lparr>libs = [Dynamic_lib ''a.so''], pb = builtin_services (),
             plugins = [\<lparr>pid = 0, made_by = 7\<rparr>], terminate = False\<rparr>"
       and f = 7 and ?pb0.0 = "builtin_services ()" and env = ?env
       and ?name0.0 = "''offload_data''"]
  from th r s p1 m show ?thesis by blast
qed

section \<open>Properties of the offload plugin\<close>

lemma ILLIXR_abort_Inl:
  "ILLIXR_abort x msg = Inl e \<Longrightarrow> e = Thrown msg \<or> e = Process_ended msg"
  by (cases x) auto


lemma write_frame_Inl:
  "write_frame env n c st = Inl e \<Longrightarrow>
     ILLIXR_abort (ILLIXR_abort_exit env) ''Image create failed !!! '' = Inl e"
  by (cases st)
     (auto simp: write_frame_def Let_def bind_err_def
        split: if_splits prod.splits sum.splits)


lemma remove_all_below: "p \<noteq> [] \<Longrightarrow> prefix p q \<Longrightarrow> remove_all p fs q = None"
  by (simp add: remove_all_def)

lemma remove_all_cong:
  assumes "\<forall>q. \<not> prefix p q \<longrightarrow> fs' q = fs q" and "p \<noteq> []"
  shows "remove_all p fs' = remove_all p fs"
  using assms by (auto simp: remove_all_def)

lemma create_directories_Inr:
  assumes "create_directories p fs1 = Inr fs2"
  shows "p \<noteq> []"
    and "fs2 = (\<lambda>q. if q \<noteq> [] \<and> prefix q p \<and> fs1 q = None then Some Directory else fs1 q)"
  using assms by (auto simp: create_directories_def split: if_splits)

text \<open>
  Claim C9. With offloading disabled the destructor returns the file system as it was.
  With offloading enabled, and the directory created, \<open>writeDataToDisk\<close> starts from a
  file system in which the output directory exists and nothing is below it, so whatever
  was below it before is gone; and the destructor's result does not depend on what was
  at or below the output directory before.
\<close>

theorem destructor_clears_output_directory:
  "(\<not> enable_offload od \<longrightarrow> offload_data_destroy env od fs = Inr (od, fs))
   \<and> (enable_offload od \<longrightarrow>
        create_directories (path_of (obj_dir od)) (remove_all (path_of (obj_dir od)) fs)
          = Inr fs2 \<longrightarrow>
        offload_data_destroy env od fs =
          writeDataToDisk env od fs2 (offload_data_container od)
        \<and> fs2 (path_of (obj_dir od)) = Some Directory
        \<and> (\<forall>q. strict_prefix (path_of (obj_dir od)) q \<longrightarrow> fs2 q = None)
        \<and> (\<forall>fs'. (\<forall>q. \<not> prefix (path_of (obj_dir od)) q \<longrightarrow> fs' q = fs q) \<longrightarrow>
              offload_data_destroy env od fs' = offload_data_destroy env od fs))"
proof (intro conjI impI allI)
  assume "\<not> enable_offload od"
  then show "offload_data_destroy env od fs = Inr (od, fs)"
    by (simp add: offload_data_destroy_def)
next
  let ?p = "path_of (obj_dir od)"
  assume en: "enable_offload od"
    and cr: "create_directories ?p (remove_all ?p fs) = Inr fs2"
  note ne = create_directories_Inr(1) [OF cr] and eq = create_directories_Inr(2) [OF cr]
  from en cr show "offload_data_destroy env od fs =
      writeDataToDisk env od fs2 (offload_data_container od)"
    by (simp add: offload_data_destroy_def Let_def bind_err_simps)
  from ne show "fs2 ?p = Some Directory"
    by (subst eq) (simp add: remove_all_below)
  {
    fix q assume sp: "strict_prefix ?p q"
    then have "prefix ?p q" and "\<not> prefix q ?p"
      by (auto simp: strict_prefix_def dest: prefix_order.antisym)
    with ne show "fs2 q = None"
      by (subst eq) (simp add: remove_all_below)
  }
  {
    fix fs' :: "('b, 'c) filesystem"
    assume "\<forall>q. \<not> prefix ?p q \<longrightarrow> fs' q = fs q"
    then have "remove_all ?p fs' = remove_all ?p fs" using ne by (rule remove_all_cong)
    with en show "offload_data_destroy env od fs' = offload_data_destroy env od fs"
      by (simp add: offload_data_destroy_def Let_def)
  }
qed

theorem destructor_clears_output_directory_witness:
  "path_of ''out/'' = [''out'']
   \<and> offload_data_destroy
        \<lparr>getenv = Map.empty, str_to_bool = (\<lambda>s. s = ''True''), FB_WIDTH = 2, FB_HEIGHT = 2,
         png_encodes = (\<lambda>i::nat. True), count_milli = (\<lambda>d::int. d),
      ILLIXR_abort_exit = Ends_process\<rparr>
        \<lparr>plugin_name = ''offload_data'', sb = (), time_seq = [],
         offload_data_container = [], percent = 0, img_idx = 0, enable_offload = False,
         is_success = True, obj_dir = ''out/''\<rparr>
        [[''out''] \<mapsto> Directory, [''out'', ''old.txt''] \<mapsto> Regular (Text [Str ''old'' :: nat token])]
      = Inr (\<lparr>plugin_name = ''offload_data'', sb = (), time_seq = [],
         offload_data_container = [], percent = 0, img_idx = 0, enable_offload = False,
         is_success = True, obj_dir = ''out/''\<rparr>,
         [[''out''] \<mapsto> Directory, [''out'', ''old.txt''] \<mapsto> Regular (Text [Str ''old''])])
   \<and> (\<exists>fs2.
        create_directories [''out'']
          (remove_all [''out'']
            [[''out''] \<mapsto> Directory,
             [''out'', ''old.txt''] \<mapsto> Regular (Text [Str ''old'' :: nat token])]) = Inr fs2
        \<and> fs2 [''out''] = Some Directory
        \<and> fs2 [''out'', ''old.txt''] = (None :: (nat, nat) node option)
        \<and> offload_data_destroy
            \<lparr>getenv = Map.empty, str_to_bool = (\<lambda>s. s = ''True''), FB_WIDTH = 2, FB_HEIGHT = 2,
             png_encodes = (\<lambda>i::nat. True), count_milli = (\<lambda>d::int. d),
      ILLIXR_abort_exit = Ends_process\<rparr>
            \<lparr>plugin_name = ''offload_data'', sb = (), time_seq = [],
             offload_data_container = [], percent = 0, img_idx = 0, enable_offload = True,
             is_success = True, obj_dir = ''out/''\<rparr>
            [[''out''] \<mapsto> Directory,
             [''out'', ''old.txt''] \<mapsto> Regular (Text [Str ''old''])]
          = writeDataToDisk
            \<lparr>getenv = Map.empty, str_to_bool = (\<lambda>s. s = ''True''), FB_WIDTH = 2, FB_HEIGHT = 2,
             png_encodes = (\<lambda>i::nat. True), count_milli = (\<lambda>d::int. d),
      ILLIXR_abort_exit = Ends_process\<rparr>
            \<lparr>plugin_name = ''offload_data'', sb = (), time_seq = [],
             offload_data_container = [], percent = 0, img_idx = 0, enable_offload = True,
             is_success = True, obj_dir = ''out/''\<rparr>
            fs2 [])"
proof -
  let ?env = "\<lparr>getenv = Map.empty, str_to_bool = (\<lambda>s. s = ''True''), FB_WIDTH = 2,
      FB_HEIGHT = 2, png_encodes = (\<lambda>i::nat. True), count_milli = (\<lambda>d::int. d),
      ILLIXR_abort_exit = Ends_process\<rparr>"
  let ?od = "\<lambda>b. \<lparr>plugin_name = ''offload_data'', sb = (), time_seq = [],
         offload_data_container = [] :: (nat, nat, int) texture_pose list,
         percent = 0, img_idx = 0, enable_offload = b,
         is_success = True, obj_dir = ''out/''\<rparr>"
  let ?fs = "[[''out''] \<mapsto> Directory,
       [''out'', ''old.txt''] \<mapsto> Regular (Text [Str ''old'' :: nat token])]
       :: (nat, nat) filesystem"
  have p: "path_of ''out/'' = [''out'']" by (simp add: path_of_def)
  obtain fs2 where c: "create_directories [''out''] (remove_all [''out''] ?fs) = Inr fs2"
    by (simp add: create_directories_def remove_all_def)
  have sp: "strict_prefix [''out''] [''out'', ''old.txt'']" by simp
  have f: "\<not> enable_offload (?od False)" and t: "enable_offload (?od True)"
    and pf: "path_of (obj_dir (?od True)) = [''out'']" using p by simp_all
  from c pf have c': "create_directories (path_of (obj_dir (?od True)))
      (remove_all (path_of (obj_dir (?od True))) ?fs) = Inr fs2" by (simp only:)
  note a = destructor_clears_output_directory
    [of "?od False" ?env ?fs fs2, THEN conjunct1, THEN mp, OF f]
  note th = destructor_clears_output_directory
    [of "?od True" ?env ?fs fs2, THEN conjunct2, THEN mp, THEN mp, OF t c']
  have b1: "offload_data_destroy ?env (?od True) ?fs = writeDataToDisk ?env (?od True) fs2 []"
    using th [THEN conjunct1] by simp
  have b2: "fs2 [''out''] = Some Directory"
    using th [THEN conjunct2, THEN conjunct1] unfolding pf .
  have b3: "\<forall>q. strict_prefix [''out''] q \<longrightarrow> fs2 q = None"
    using th [THEN conjunct2, THEN conjunct2, THEN conjunct1] unfolding pf .
  from b3 sp have d: "fs2 [''out'', ''old.txt''] = None" by blast
  show ?thesis
    by (intro conjI exI [of _ fs2]) (rule p a c b1 b2 d)+
qed

section \<open>Properties of the metadata\<close>

lemma max_element_Max: "ts \<noteq> [] \<Longrightarrow> max_element ts = Some (Max (set ts))"
proof (cases ts)
  case Nil
  assume "ts \<noteq> []"
  with Nil show ?thesis by simp
next
  case (Cons x xs)
  then show ?thesis by (simp only: max_element.simps Max.set_eq_fold)
qed

lemma min_element_Min: "ts \<noteq> [] \<Longrightarrow> min_element ts = Some (Min (set ts))"
proof (cases ts)
  case Nil
  assume "ts \<noteq> []"
  with Nil show ?thesis by simp
next
  case (Cons x xs)
  then show ?thesis by (simp only: min_element.simps Min.set_eq_fold)
qed

lemma to_int_id: "- (2 ^ 31) \<le> x \<Longrightarrow> x < 2 ^ 31 \<Longrightarrow> to_int x = x"
  by (simp add: to_int_def sint_sbintrunc' signed_take_bit_int_eq_self)

lemma sort_descending_mset: "mset (sort_descending ts) = mset ts"
  by (simp add: sort_descending_def)

lemma sort_descending_sorted:
  assumes "\<forall>x\<in>set ts. - (2 ^ 31) \<le> x \<and> x < 2 ^ 31"
  shows "sorted_wrt (\<lambda>a b. a \<ge> b) (sort_descending ts)"
proof -
  have "sorted (map (\<lambda>x. - to_int x) (sort_descending ts))"
    unfolding sort_descending_def by (rule sorted_sort_key)
  then have s: "sorted_wrt (\<lambda>a b. - to_int a \<le> - to_int b) (sort_descending ts)"
    by (simp add: sorted_map)
  have "set (sort_descending ts) = set ts" by (simp add: sort_descending_def)
  with assms have "\<forall>x\<in>set (sort_descending ts). to_int x = x"
    by (simp add: to_int_id)
  have id: "\<forall>x\<in>set (sort_descending ts). to_int x = x" by fact
  show ?thesis
  proof (rule sorted_wrt_mono_rel [OF _ s])
    fix a b
    assume "a \<in> set (sort_descending ts)" "b \<in> set (sort_descending ts)"
      and "- to_int a \<le> - to_int b"
    with id show "b \<le> a" by simp
  qed
qed

lemma writeMetadata_nonempty:
  assumes "ts \<noteq> []" and "can_open fs (path_of (obj_dir od @ ''metadata.out''))"
  shows "writeMetadata od fs ts =
     Inr (fs(path_of (obj_dir od @ ''metadata.out'') \<mapsto> Regular (Text
       ([Str ''mean: '', Dbl (mean_of ts), Endl,
         Str ''max: '', Long (Max (set ts)), Endl,
         Str ''min: '', Long (Min (set ts)), Endl,
         Str ''stdev: '', Dbl (stdev_of ts), Endl,
         Str ''total number: '', Size (of_nat (length ts)), Endl,
         Str ''raw time: '', Endl] @
        time_tokens ts @
        [Endl, Endl, Endl, Str ''ordered time: '', Endl] @
        time_tokens (sort_descending ts)))))"
  using assms by (simp add: writeMetadata_def Let_def max_element_Max min_element_Min)

lemma writeMetadata_empty:
  assumes "can_open fs (path_of (obj_dir od @ ''metadata.out''))"
  shows "writeMetadata od fs [] = Inl Undefined_behaviour"
  using assms by (simp add: writeMetadata_def Let_def)

lemma writeMetadata_not_UB:
  "ts \<noteq> [] \<Longrightarrow> writeMetadata od fs ts \<noteq> Inl Undefined_behaviour"
  by (cases "can_open fs (path_of (obj_dir od @ ''metadata.out''))")
     (simp_all add: writeMetadata_nonempty, simp add: writeMetadata_def Let_def)

lemma write_frame_time_seq:
  "write_frame env n c (od, fs) = Inr (od1, fs1) \<Longrightarrow>
     time_seq od1 = time_seq od @ [count_milli env (offload_duration c)]"
  by (auto simp: write_frame_def Let_def bind_err_Inr_iff split: if_splits prod.splits)

lemma write_frames_time_seq:
  "write_frames env n cs (od, fs) = Inr (od1, fs1) \<Longrightarrow> cs \<noteq> [] \<Longrightarrow> time_seq od1 \<noteq> []"
proof (induction cs arbitrary: od fs)
  case Nil
  then show ?case by simp
next
  case (Cons c cs)
  from Cons.prems(1) obtain od2 fs2 where
    a: "write_frame env n c (od, fs) = Inr (od2, fs2)"
    and b: "write_frames env n cs (od2, fs2) = Inr (od1, fs1)"
    by (auto simp: bind_err_Inr_iff)
  from write_frame_time_seq [OF a] have ne: "time_seq od2 \<noteq> []" by simp
  show ?case
  proof (cases cs)
    case Nil
    with b ne show ?thesis by simp
  next
    case (Cons c' cs')
    then have "cs \<noteq> []" by simp
    with b show ?thesis by (rule Cons.IH)
  qed
qed

lemma write_frames_Inl:
  "write_frames env n cs st = Inl e \<Longrightarrow>
     ILLIXR_abort (ILLIXR_abort_exit env) ''Image create failed !!! '' = Inl e"
proof (induction cs arbitrary: st)
  case Nil
  then show ?case by simp
next
  case (Cons c cs)
  show ?case
  proof (cases "write_frame env n c st")
    case (Inl e')
    with Cons.prems have "e' = e" by (simp add: bind_err_simps)
    with Inl show ?thesis by (simp add: write_frame_Inl)
  next
    case (Inr st1)
    with Cons.prems have "write_frames env n cs st1 = Inl e" by (simp add: bind_err_simps)
    then show ?thesis by (rule Cons.IH)
  qed
qed

lemma writeDataToDisk_not_UB:
  assumes "container \<noteq> []"
  shows "writeDataToDisk env od fs container \<noteq> Inl Undefined_behaviour"
proof (cases "write_frames env (length container) container (od\<lparr>img_idx := 0\<rparr>, fs)")
  case (Inl e)
  from ILLIXR_abort_Inl [OF write_frames_Inl [OF Inl]] have "e \<noteq> Undefined_behaviour"
    by auto
  with Inl show ?thesis
    by (simp add: writeDataToDisk_def bind_err_simps)
next
  case (Inr st1)
  obtain od1 fs1 where st1: "st1 = (od1, fs1)" by (cases st1)
  with Inr assms have "time_seq od1 \<noteq> []" by (auto dest: write_frames_time_seq)
  then have "writeMetadata od1 fs1 (time_seq od1) \<noteq> Inl Undefined_behaviour"
    by (rule writeMetadata_not_UB)
  with Inr st1 show ?thesis
    by (cases "writeMetadata od1 fs1 (time_seq od1)")
       (simp_all add: writeDataToDisk_def bind_err_simps)
qed

lemma callback_fields:
  "offload_data_container (callback ndebug d od) = offload_data_container od @ [d]"
  "time_seq (callback ndebug d od) = time_seq od"
  "enable_offload (callback ndebug d od) = enable_offload od"
  "obj_dir (callback ndebug d od) = obj_dir od"
  by (simp_all add: callback_def Let_def)

lemma received_fields:
  "offload_data_container (received ndebug data od) = offload_data_container od @ data"
  "time_seq (received ndebug data od) = time_seq od"
  "enable_offload (received ndebug data od) = enable_offload od"
  "obj_dir (received ndebug data od) = obj_dir od"
  unfolding received_def
  by (induction data arbitrary: od) (simp_all add: callback_fields)

lemma offload_data_init_fields:
  assumes "offload_data_init env name0 pb0 = Inr od0"
  shows "offload_data_container od0 = []" and "time_seq od0 = []"
  using assms by (auto simp: offload_data_init_def bind_err_Inr_iff)

lemma create_directories_Inl:
  "create_directories p fs = Inl e \<Longrightarrow> e = Filesystem_error"
  by (auto simp: create_directories_def split: if_splits)

lemma destroy_not_UB:
  assumes "offload_data_container od \<noteq> []"
  shows "offload_data_destroy env od fs \<noteq> Inl Undefined_behaviour"
proof (cases "enable_offload od")
  case False
  then show ?thesis by (simp add: offload_data_destroy_def)
next
  case True
  show ?thesis
  proof (cases "create_directories (path_of (obj_dir od)) (remove_all (path_of (obj_dir od)) fs)")
    case (Inl e)
    with True create_directories_Inl [OF Inl] show ?thesis
      by (simp add: offload_data_destroy_def Let_def bind_err_simps)
  next
    case (Inr fs2)
    with True writeDataToDisk_not_UB [OF assms, of env od fs2] show ?thesis
      by (simp add: offload_data_destroy_def Let_def bind_err_simps)
  qed
qed

lemma destroy_empty_UB:
  assumes "offload_data_container od = []" and "time_seq od = []" and "enable_offload od"
    and "create_directories (path_of (obj_dir od)) (remove_all (path_of (obj_dir od)) fs) = Inr fs2"
    and "can_open fs2 (path_of (obj_dir od @ ''metadata.out''))"
  shows "offload_data_destroy env od fs = Inl Undefined_behaviour"
  using assms
  by (simp add: offload_data_destroy_def Let_def bind_err_simps writeDataToDisk_def
        writeMetadata_def)

text \<open>
  Claim C10, as amended. For a non-empty sequence, when the metadata file opens,
  \<open>writeMetadata\<close> writes mean, max, min, stdev, the count and the raw times, and then
  a permutation of the times that is in descending order when every time fits in a
  32-bit \<open>int\<close>. For the empty sequence, when the file opens, \<open>max_element\<close> and
  \<open>min_element\<close> return the end iterator and dereferencing it is undefined behaviour;
  the divisor of the mean is the size 0, while the divisor of the standard deviation,
  \<open>size() - 1\<close>, is \<open>2^64 - 1\<close> there and is 0 for a sequence of one time. A
  plugin that received at least one payload never reaches the undefined behaviour in its
  destructor; one that received none reaches it when offloading is enabled and the file
  opens.
\<close>

theorem writeMetadata_needs_events:
  "(ts \<noteq> [] \<longrightarrow> can_open fs (path_of (obj_dir od @ ''metadata.out'')) \<longrightarrow>
      writeMetadata od fs ts =
        Inr (fs(path_of (obj_dir od @ ''metadata.out'') \<mapsto> Regular (Text
          ([Str ''mean: '', Dbl (mean_of ts), Endl,
            Str ''max: '', Long (Max (set ts)), Endl,
            Str ''min: '', Long (Min (set ts)), Endl,
            Str ''stdev: '', Dbl (stdev_of ts), Endl,
            Str ''total number: '', Size (of_nat (length ts)), Endl,
            Str ''raw time: '', Endl] @
           time_tokens ts @
           [Endl, Endl, Endl, Str ''ordered time: '', Endl] @
           time_tokens (sort_descending ts)))))
      \<and> mset (sort_descending ts) = mset ts
      \<and> ((\<forall>x\<in>set ts. - (2 ^ 31) \<le> x \<and> x < 2 ^ 31) \<longrightarrow>
            sorted_wrt (\<lambda>a b. b \<le> a) (sort_descending ts)))
   \<and> (can_open fs (path_of (obj_dir od @ ''metadata.out'')) \<longrightarrow>
        max_element [] = None \<and> min_element [] = None
        \<and> writeMetadata od fs [] = Inl Undefined_behaviour)
   \<and> mean_of [] = D_div D_zero (D_of_size 0)
   \<and> unat (stdev_divisor []) = 18446744073709551615
   \<and> stdev_divisor [t] = 0
   \<and> (offload_data_init env name0 pb0 = Inr od0 \<longrightarrow> data \<noteq> [] \<longrightarrow>
        offload_data_destroy env (received ndebug data od0) fs' \<noteq> Inl Undefined_behaviour)
   \<and> (offload_data_init env name0 pb0 = Inr od0 \<longrightarrow> enable_offload od0 \<longrightarrow>
        create_directories (path_of (obj_dir od0)) (remove_all (path_of (obj_dir od0)) fs')
          = Inr fs2 \<longrightarrow>
        can_open fs2 (path_of (obj_dir od0 @ ''metadata.out'')) \<longrightarrow>
        offload_data_destroy env (received ndebug [] od0) fs' = Inl Undefined_behaviour)"
proof (intro conjI impI)
  assume "ts \<noteq> []" and "can_open fs (path_of (obj_dir od @ ''metadata.out''))"
  then show "writeMetadata od fs ts =
        Inr (fs(path_of (obj_dir od @ ''metadata.out'') \<mapsto> Regular (Text
          ([Str ''mean: '', Dbl (mean_of ts), Endl,
            Str ''max: '', Long (Max (set ts)), Endl,
            Str ''min: '', Long (Min (set ts)), Endl,
            Str ''stdev: '', Dbl (stdev_of ts), Endl,
            Str ''total number: '', Size (of_nat (length ts)), Endl,
            Str ''raw time: '', Endl] @
           time_tokens ts @
           [Endl, Endl, Endl, Str ''ordered time: '', Endl] @
           time_tokens (sort_descending ts)))))"
    by (rule writeMetadata_nonempty)
next
  show "mset (sort_descending ts) = mset ts" by (rule sort_descending_mset)
next
  assume "\<forall>x\<in>set ts. - (2 ^ 31) \<le> x \<and> x < 2 ^ 31"
  then show "sorted_wrt (\<lambda>a b. b \<le> a) (sort_descending ts)"
    by (rule sort_descending_sorted)
next
  show "max_element [] = None" and "min_element [] = None" by simp_all
next
  assume "can_open fs (path_of (obj_dir od @ ''metadata.out''))"
  then show "writeMetadata od fs [] = Inl Undefined_behaviour"
    by (rule writeMetadata_empty)
next
  show "mean_of [] = D_div D_zero (D_of_size 0)" by (simp add: mean_of_def)
next
  show "unat (stdev_divisor []) = 18446744073709551615"
    by (simp add: stdev_divisor_def unsigned_minus_1_eq_mask mask_eq_exp_minus_1)
next
  show "stdev_divisor [t] = 0" by (simp add: stdev_divisor_def)
next
  assume i: "offload_data_init env name0 pb0 = Inr od0" and d: "data \<noteq> []"
  from d have "offload_data_container (received ndebug data od0) \<noteq> []"
    by (simp add: received_fields)
  then show "offload_data_destroy env (received ndebug data od0) fs' \<noteq> Inl Undefined_behaviour"
    by (rule destroy_not_UB)
next
  assume i: "offload_data_init env name0 pb0 = Inr od0" and en: "enable_offload od0"
    and cr: "create_directories (path_of (obj_dir od0))
               (remove_all (path_of (obj_dir od0)) fs') = Inr fs2"
    and op: "can_open fs2 (path_of (obj_dir od0 @ ''metadata.out''))"
  have r: "received ndebug [] od0 = od0" by (simp add: received_def)
  from offload_data_init_fields [OF i] en cr op
  show "offload_data_destroy env (received ndebug [] od0) fs' = Inl Undefined_behaviour"
    unfolding r by (intro destroy_empty_UB)
qed

theorem writeMetadata_needs_events_witness:
  "writeMetadata
     \<lparr>plugin_name = ''offload_data'', sb = (), time_seq = [], offload_data_container = [] :: (nat, nat, int) texture_pose list,
      percent = 0, img_idx = 0, enable_offload = True, is_success = True,
      obj_dir = ''out/''\<rparr>
     [[''out''] \<mapsto> Directory] [3, 1, 2]
   = Inr ([[''out''] \<mapsto> Directory,
           [''out'', ''metadata.out''] \<mapsto> Regular (Text
             [Str ''mean: '', Dbl (mean_of [3, 1, 2]), Endl,
              Str ''max: '', Long 3, Endl,
              Str ''min: '', Long 1, Endl,
              Str ''stdev: '', Dbl (stdev_of [3, 1, 2]), Endl,
              Str ''total number: '', Size 3, Endl,
              Str ''raw time: '', Endl,
              Long 3, Str '' '', Long 1, Str '' '', Long 2, Str '' '',
              Endl, Endl, Endl, Str ''ordered time: '', Endl,
              Long 3, Str '' '', Long 2, Str '' '', Long 1, Str '' '' :: nat token])]
          :: (nat, nat) filesystem)
   \<and> sorted_wrt (\<lambda>a b. b \<le> a) (sort_descending [3, 1, 2 :: int])
   \<and> writeMetadata
        \<lparr>plugin_name = ''offload_data'', sb = (), time_seq = [], offload_data_container = [] :: (nat, nat, int) texture_pose list,
         percent = 0, img_idx = 0, enable_offload = True, is_success = True,
         obj_dir = ''out/''\<rparr>
        ([[''out''] \<mapsto> Directory] :: (nat, nat) filesystem) []
      = Inl Undefined_behaviour
   \<and> offload_data_init
        \<lparr>getenv = [''ILLIXR_OFFLOAD_ENABLE'' \<mapsto> ''True'', ''ILLIXR_OFFLOAD_PATH'' \<mapsto> ''out/''],
         str_to_bool = (\<lambda>s. s = ''True''), FB_WIDTH = 2, FB_HEIGHT = 2,
         png_encodes = (\<lambda>i::nat. True), count_milli = (\<lambda>d::int. d),
      ILLIXR_abort_exit = Ends_process\<rparr>
        ''offload_data'' [T_switchboard \<mapsto> ()]
      = Inr \<lparr>plugin_name = ''offload_data'', sb = (), time_seq = [],
             offload_data_container = [] :: (nat, nat, int) texture_pose list, percent = 0, img_idx = 0, enable_offload = True,
             is_success = True, obj_dir = ''out/''\<rparr>
   \<and> offload_data_destroy
        \<lparr>getenv = [''ILLIXR_OFFLOAD_ENABLE'' \<mapsto> ''True'', ''ILLIXR_OFFLOAD_PATH'' \<mapsto> ''out/''],
         str_to_bool = (\<lambda>s. s = ''True''), FB_WIDTH = 2, FB_HEIGHT = 2,
         png_encodes = (\<lambda>i::nat. True), count_milli = (\<lambda>d::int. d),
      ILLIXR_abort_exit = Ends_process\<rparr>
        (received True
          [\<lparr>offload_duration = 5, image = 13, pose_time = 0, position = [],
            latest_quaternion = (0, 0, 0, 1 :: nat), render_quaternion = (0, 0, 0, 1)\<rparr>]
          \<lparr>plugin_name = ''offload_data'', sb = (), time_seq = [],
           offload_data_container = [] :: (nat, nat, int) texture_pose list, percent = 0, img_idx = 0, enable_offload = True,
           is_success = True, obj_dir = ''out/''\<rparr>)
        (Map.empty :: (nat, nat) filesystem)
      \<noteq> Inl Undefined_behaviour
   \<and> offload_data_destroy
        \<lparr>getenv = [''ILLIXR_OFFLOAD_ENABLE'' \<mapsto> ''True'', ''ILLIXR_OFFLOAD_PATH'' \<mapsto> ''out/''],
         str_to_bool = (\<lambda>s. s = ''True''), FB_WIDTH = 2, FB_HEIGHT = 2,
         png_encodes = (\<lambda>i::nat. True), count_milli = (\<lambda>d::int. d),
      ILLIXR_abort_exit = Ends_process\<rparr>
        (received True []
          \<lparr>plugin_name = ''offload_data'', sb = (), time_seq = [],
           offload_data_container = [] :: (nat, nat, int) texture_pose list,
           percent = 0, img_idx = 0, enable_offload = True,
           is_success = True, obj_dir = ''out/''\<rparr>)
        (Map.empty :: (nat, nat) filesystem)
      = Inl Undefined_behaviour"
proof -
  let ?env = "\<lparr>getenv = [''ILLIXR_OFFLOAD_ENABLE'' \<mapsto> ''True'',
        ''ILLIXR_OFFLOAD_PATH'' \<mapsto> ''out/''],
      str_to_bool = (\<lambda>s. s = ''True''), FB_WIDTH = 2, FB_HEIGHT = 2,
      png_encodes = (\<lambda>i::nat. True), count_milli = (\<lambda>d::int. d),
      ILLIXR_abort_exit = Ends_process\<rparr>"
  let ?od = "\<lparr>plugin_name = ''offload_data'', sb = (), time_seq = [],
      offload_data_container = [] :: (nat, nat, int) texture_pose list,
      percent = 0, img_idx = 0, enable_offload = True,
      is_success = True, obj_dir = ''out/''\<rparr>"
  let ?fs = "[[''out''] \<mapsto> Directory] :: (nat, nat) filesystem"
  let ?frame = "\<lparr>offload_duration = 5::int, image = 13::nat, pose_time = 0,
      position = [] :: nat list,
      latest_quaternion = (0, 0, 0, 1::nat), render_quaternion = (0, 0, 0, 1::nat)\<rparr>"
  have pm: "path_of ''out/metadata.out'' = [''out'', ''metadata.out'']"
    by (simp add: path_of_def)
  have po: "path_of ''out/'' = [''out'']" by (simp add: path_of_def)
  have op: "can_open ?fs (path_of (obj_dir ?od @ ''metadata.out''))"
    by (simp add: pm can_open_def)
  have ne: "[3, 1, 2] \<noteq> ([] :: int list)" by simp
  have rg: "\<forall>x\<in>set [3, 1, 2 :: int]. - (2 ^ 31) \<le> x \<and> x < 2 ^ 31" by simp
  have init: "offload_data_init ?env ''offload_data'' [T_switchboard \<mapsto> ()] = Inr ?od"
    by (simp add: offload_data_init_def lookup_impl_def bind_err_simps getenv_or_def)
  have dn: "[?frame] \<noteq> []" by simp
  have en: "enable_offload ?od" by simp
  obtain fs2 where cr0: "create_directories [''out''] (remove_all [''out''] Map.empty)
      = Inr (fs2 :: (nat, nat) filesystem)"
    and fs2: "fs2 [''out''] = Some Directory" "fs2 [''out'', ''metadata.out''] = None"
    by (simp add: create_directories_def remove_all_def)
  from cr0 po have cr: "create_directories (path_of (obj_dir ?od))
      (remove_all (path_of (obj_dir ?od)) Map.empty) = Inr fs2" by simp
  have op2: "can_open fs2 (path_of (obj_dir ?od @ ''metadata.out''))"
    using fs2 by (simp add: pm can_open_def)
  note th = writeMetadata_needs_events
    [where ts = "[3, 1, 2]" and fs = ?fs and od = ?od and t = 0 and env = ?env
       and ?name0.0 = "''offload_data''" and ?pb0.0 = "[T_switchboard \<mapsto> ()]"
       and ?od0.0 = ?od and data = "[?frame]" and ndebug = True
       and fs' = "Map.empty :: (nat, nat) filesystem" and ?fs2.0 = fs2]
  note th1 = th [THEN conjunct1, THEN mp, THEN mp, OF ne op]
  note th2 = th [THEN conjunct2, THEN conjunct1, THEN mp, OF op]
  note th6 = th [THEN conjunct2, THEN conjunct2, THEN conjunct2, THEN conjunct2,
      THEN conjunct2, THEN conjunct1, THEN mp, THEN mp, OF init dn]
  note th7 = th [THEN conjunct2, THEN conjunct2, THEN conjunct2, THEN conjunct2,
      THEN conjunct2, THEN conjunct2, THEN mp, THEN mp, THEN mp, THEN mp,
      OF init en cr op2]
  have t3: "to_int 3 = 3" "to_int 1 = 1" "to_int 2 = 2" by (simp_all add: to_int_def)
  have sd: "sort_descending [3, 1, 2] = [3, 2, 1]"
    by (simp add: sort_descending_def t3)
  have a: "writeMetadata ?od ?fs [3, 1, 2]
   = Inr ([[''out''] \<mapsto> Directory,
           [''out'', ''metadata.out''] \<mapsto> Regular (Text
             [Str ''mean: '', Dbl (mean_of [3, 1, 2]), Endl,
              Str ''max: '', Long 3, Endl,
              Str ''min: '', Long 1, Endl,
              Str ''stdev: '', Dbl (stdev_of [3, 1, 2]), Endl,
              Str ''total number: '', Size 3, Endl,
              Str ''raw time: '', Endl,
              Long 3, Str '' '', Long 1, Str '' '', Long 2, Str '' '',
              Endl, Endl, Endl, Str ''ordered time: '', Endl,
              Long 3, Str '' '', Long 2, Str '' '', Long 1, Str '' ''])])"
    using th1 [THEN conjunct1] by (simp add: pm sd time_tokens_def)
  have b: "sorted_wrt (\<lambda>a b. b \<le> a) (sort_descending [3, 1, 2 :: int])"
    using th1 [THEN conjunct2, THEN conjunct2, THEN mp, OF rg] .
  have c: "writeMetadata ?od ?fs [] = Inl Undefined_behaviour"
    using th2 [THEN conjunct2, THEN conjunct2] .
  show ?thesis
    by (intro conjI) (rule a b c init th6 th7)+
qed

text \<open>
  The claim as it was stated fails at three inputs: for the empty sequence the divisor of
  the standard deviation is not zero; for the times \<open>2^32\<close> and \<open>1\<close> the
  comparator, which takes \<open>int\<close>, yields the order \<open>1, 2^32\<close>, which is not
  descending; and a non-empty sequence writes nothing when the file does not open.
\<close>

theorem writeMetadata_claim_counterexample:
  "unat (stdev_divisor []) = 18446744073709551615
   \<and> stdev_divisor [] \<noteq> 0
   \<and> sort_descending [4294967296, 1] = [1, 4294967296]
   \<and> \<not> sorted_wrt (\<lambda>a b. b \<le> a) (sort_descending [4294967296, 1])
   \<and> writeMetadata
        \<lparr>plugin_name = ''offload_data'', sb = (), time_seq = [],
         offload_data_container = [] :: (nat, nat, int) texture_pose list,
         percent = 0, img_idx = 0, enable_offload = True, is_success = True,
         obj_dir = ''out/''\<rparr>
        ([[''out''] \<mapsto> Directory, [''out'', ''metadata.out''] \<mapsto> Directory]
          :: (nat, nat) filesystem)
        [5]
      = Inr [[''out''] \<mapsto> Directory, [''out'', ''metadata.out''] \<mapsto> Directory]"
proof -
  have a: "to_int 4294967296 = 0" and b: "to_int 1 = 1"
    by (simp_all add: to_int_def)
  have s: "sort_descending [4294967296, 1] = [1, 4294967296]"
    by (simp add: sort_descending_def a b)
  have d: "unat (stdev_divisor []) = 18446744073709551615"
    by (simp add: stdev_divisor_def unsigned_minus_1_eq_mask mask_eq_exp_minus_1)
  then have z: "stdev_divisor [] \<noteq> 0" by auto
  have pm: "path_of ''out/metadata.out'' = [''out'', ''metadata.out'']"
    by (simp add: path_of_def)
  have w: "writeMetadata
        \<lparr>plugin_name = ''offload_data'', sb = (), time_seq = [],
         offload_data_container = [] :: (nat, nat, int) texture_pose list,
         percent = 0, img_idx = 0, enable_offload = True, is_success = True,
         obj_dir = ''out/''\<rparr>
        ([[''out''] \<mapsto> Directory, [''out'', ''metadata.out''] \<mapsto> Directory]
          :: (nat, nat) filesystem)
        [5]
      = Inr [[''out''] \<mapsto> Directory, [''out'', ''metadata.out''] \<mapsto> Directory]"
    by (simp add: writeMetadata_def Let_def pm can_open_def)
  have n: "\<not> sorted_wrt (\<lambda>a b. b \<le> a) (sort_descending [4294967296, 1])"
    by (simp add: s)
  show ?thesis by (intro conjI) (rule d z s n w)+
qed

section \<open>Properties of a failed image encode\<close>










end
